theory Spec2Isabelle
  imports Complex_Main
begin

section \<open>JavaScript values as the style engines use them\<close>

text \<open>
  The style engines are JavaScript classes that interpolate the fields of a style object
  into ffmpeg filter strings. A style object is built by object spread from caller data, so a
  field is not bound to one type: the model keeps the values dynamically typed. The values
  are \<open>undefined\<close>, \<open>null\<close>, booleans, numbers and strings. Symbol, BigInt and object
  values, on which interpolation or arithmetic can throw a \<open>TypeError\<close>, are outside the
  model; nothing below speaks about styles that hold them.

  Numbers are modelled as exact decimals \<open>Dec m e\<close> (the value \<open>m / 10 ^ e\<close>) plus
  \<open>NaN\<close>. Every numeric literal of the sources is a finite decimal and the sources only
  add, multiply, floor and compare, so decimals are closed under what the code does. The
  model agrees with JavaScript wherever binary64 arithmetic is exact (integers below
  \<open>2 ^ 53\<close>, and the fractions used in the evaluated examples below); binary64 rounding,
  infinities, negative zero and exponent notation in number printing are not modelled.
\<close>

datatype jsnum = Dec int nat | NaN

datatype jsval = JUndefined | JNull | JBool bool | JNum jsnum | JStr string

subsection \<open>Number to string\<close>

definition digit_char :: "nat \<Rightarrow> char" where
  "digit_char d = ''0123456789abcdef'' ! d"

fun show_nat :: "nat \<Rightarrow> string" where
  "show_nat n = (if n < 10 then [digit_char n] else show_nat (n div 10) @ [digit_char (n mod 10)])"

declare show_nat.simps [simp del]

fun strip_zeros :: "int \<Rightarrow> nat \<Rightarrow> int \<times> nat" where
  "strip_zeros m 0 = (m, 0)"
| "strip_zeros m (Suc e) = (if m mod 10 = 0 then strip_zeros (m div 10) e else (m, Suc e))"

definition pad_zeros :: "nat \<Rightarrow> string \<Rightarrow> string" where
  "pad_zeros n s = replicate (n - length s) (CHR ''0'') @ s"

definition num_to_string :: "jsnum \<Rightarrow> string" where
  "num_to_string n =
     (case n of
        NaN \<Rightarrow> ''NaN''
      | Dec m e \<Rightarrow>
          (case strip_zeros m e of
             (m', e') \<Rightarrow>
               (if m' < 0 then ''-'' else '''')
               @ show_nat (nat \<bar>m'\<bar> div 10 ^ e')
               @ (if e' = 0 then '''' else ''.'' @ pad_zeros e' (show_nat (nat \<bar>m'\<bar> mod 10 ^ e')))))"

subsection \<open>String to number\<close>

definition is_ws :: "char \<Rightarrow> bool" where
  "is_ws c = (c \<in> set [CHR '' '', CHR 0x09, CHR 0x0A, CHR 0x0B, CHR 0x0C, CHR 0x0D])"

fun index_of :: "'a \<Rightarrow> 'a list \<Rightarrow> nat option" where
  "index_of c [] = None"
| "index_of c (d # ds) = (if c = d then Some 0 else map_option Suc (index_of c ds))"

definition digit_value :: "nat \<Rightarrow> char \<Rightarrow> nat option" where
  "digit_value radix c =
     (case index_of c ''0123456789abcdef'' of
        Some d \<Rightarrow> if d < radix then Some d else None
      | None \<Rightarrow>
          (case index_of c ''ABCDEF'' of
             Some d \<Rightarrow> if d + 10 < radix then Some (d + 10) else None
           | None \<Rightarrow> None))"

definition is_digit :: "nat \<Rightarrow> char \<Rightarrow> bool" where
  "is_digit radix c = (digit_value radix c \<noteq> None)"

definition digits_value :: "nat \<Rightarrow> string \<Rightarrow> nat" where
  "digits_value radix ds = foldl (\<lambda>acc c. acc * radix + (case digit_value radix c of Some d \<Rightarrow> d | None \<Rightarrow> 0)) 0 ds"

definition trim :: "string \<Rightarrow> string" where
  "trim s = rev (dropWhile is_ws (rev (dropWhile is_ws s)))"

definition split_sign :: "string \<Rightarrow> int \<times> string" where
  "split_sign s =
     (case s of
        c # cs \<Rightarrow> if c = CHR ''-'' then (-1, cs) else if c = CHR ''+'' then (1, cs) else (1, s)
      | [] \<Rightarrow> (1, s))"

text \<open>
  \<open>ToNumber\<close> on a string: surrounding white space is dropped, the empty string is 0, a
  signed decimal literal with an optional fraction is read exactly, and anything else is
  \<open>NaN\<close>. (JavaScript also reads exponents, \<open>0x\<close>/\<open>0o\<close>/\<open>0b\<close> literals and
  \<open>Infinity\<close>; those strings are outside the decimal model.)
\<close>

definition string_to_number :: "string \<Rightarrow> jsnum" where
  "string_to_number s =
     (let t = trim s in
      if t = [] then Dec 0 0
      else
        (case split_sign t of
           (sg, u) \<Rightarrow>
             (let ip = takeWhile (is_digit 10) u;
                  r = dropWhile (is_digit 10) u
              in if r = [] then (if ip = [] then NaN else Dec (sg * int (digits_value 10 ip)) 0)
                 else if hd r = CHR ''.'' \<and> list_all (is_digit 10) (tl r) \<and> (ip \<noteq> [] \<or> tl r \<noteq> [])
                 then Dec (sg * int (digits_value 10 (ip @ tl r))) (length (tl r))
                 else NaN)))"

text \<open>
  \<open>parseInt(s)\<close> with no radix argument: leading white space and a sign are skipped, a
  \<open>0x\<close> prefix selects radix 16, the longest run of digits is read, and no digit at all
  gives \<open>NaN\<close>.
\<close>

definition parseInt :: "string \<Rightarrow> jsnum" where
  "parseInt s =
     (case split_sign (dropWhile is_ws s) of
        (sg, u) \<Rightarrow>
          (let hex = (take 2 u = ''0x'' \<or> take 2 u = ''0X'');
               radix = (if hex then 16 else 10);
               body = (if hex then drop 2 u else u);
               ds = takeWhile (is_digit radix) body
           in if ds = [] then NaN else Dec (sg * int (digits_value radix ds)) 0))"

subsection \<open>Conversions and operators\<close>

fun to_string :: "jsval \<Rightarrow> string" where
  "to_string JUndefined = ''undefined''"
| "to_string JNull = ''null''"
| "to_string (JBool b) = (if b then ''true'' else ''false'')"
| "to_string (JNum n) = num_to_string n"
| "to_string (JStr s) = s"

fun to_number :: "jsval \<Rightarrow> jsnum" where
  "to_number JUndefined = NaN"
| "to_number JNull = Dec 0 0"
| "to_number (JBool b) = (if b then Dec 1 0 else Dec 0 0)"
| "to_number (JNum n) = n"
| "to_number (JStr s) = string_to_number s"

fun truthy :: "jsval \<Rightarrow> bool" where
  "truthy JUndefined = False"
| "truthy JNull = False"
| "truthy (JBool b) = b"
| "truthy (JNum NaN) = False"
| "truthy (JNum (Dec m e)) = (m \<noteq> 0)"
| "truthy (JStr s) = (s \<noteq> [])"

fun num_add :: "jsnum \<Rightarrow> jsnum \<Rightarrow> jsnum" where
  "num_add (Dec a i) (Dec b j) = Dec (a * 10 ^ (max i j - i) + b * 10 ^ (max i j - j)) (max i j)"
| "num_add _ _ = NaN"

fun num_mul :: "jsnum \<Rightarrow> jsnum \<Rightarrow> jsnum" where
  "num_mul (Dec a i) (Dec b j) = Dec (a * b) (i + j)"
| "num_mul _ _ = NaN"

fun num_less :: "jsnum \<Rightarrow> jsnum \<Rightarrow> bool" where
  "num_less (Dec a i) (Dec b j) = (a * 10 ^ j < b * 10 ^ i)"
| "num_less _ _ = False"

fun math_floor :: "jsnum \<Rightarrow> jsnum" where
  "math_floor (Dec m e) = Dec (m div 10 ^ e) 0"
| "math_floor NaN = NaN"

fun math_min :: "jsnum \<Rightarrow> jsnum \<Rightarrow> jsnum" where
  "math_min (Dec a i) (Dec b j) = (if num_less (Dec b j) (Dec a i) then Dec b j else Dec a i)"
| "math_min _ _ = NaN"

fun is_str :: "jsval \<Rightarrow> bool" where
  "is_str (JStr s) = True"
| "is_str _ = False"

text \<open>The binary \<open>+\<close>: string concatenation as soon as one operand is a string.\<close>

definition js_add :: "jsval \<Rightarrow> jsval \<Rightarrow> jsval" where
  "js_add a b =
     (if is_str a \<or> is_str b then JStr (to_string a @ to_string b)
      else JNum (num_add (to_number a) (to_number b)))"

definition js_mul :: "jsval \<Rightarrow> jsval \<Rightarrow> jsval" where
  "js_mul a b = JNum (num_mul (to_number a) (to_number b))"

text \<open>\<open>v > 0\<close> against the number literal 0: numeric comparison, false on \<open>NaN\<close>.\<close>

definition js_gt_zero :: "jsval \<Rightarrow> bool" where
  "js_gt_zero v = num_less (Dec 0 0) (to_number v)"

abbreviation int_lit :: "int \<Rightarrow> jsval" where
  "int_lit n \<equiv> JNum (Dec n 0)"

subsection \<open>Strings\<close>

definition quoted :: "string \<Rightarrow> string" where
  "quoted s = CHR 0x27 # s @ [CHR 0x27]"

fun join :: "string \<Rightarrow> string list \<Rightarrow> string" where
  "join sep [] = []"
| "join sep [s] = s"
| "join sep (s # t # ts) = s @ sep @ join sep (t # ts)"

text \<open>
  \<open>s.replace(pattern, replacement)\<close> with a string pattern: the first occurrence only, and
  the \<open>$$\<close>, \<open>$&\<close>, \<open>$`\<close> and \<open>$'\<close> sequences of the replacement are expanded (a string
  pattern has no capture groups, so \<open>$1\<close> stays as written).
\<close>

fun split_at_first :: "string \<Rightarrow> string \<Rightarrow> (string \<times> string) option" where
  "split_at_first pat [] = (if pat = [] then Some ([], []) else None)"
| "split_at_first pat (c # cs) =
     (if take (length pat) (c # cs) = pat then Some ([], drop (length pat) (c # cs))
      else map_option (\<lambda>(b, a). (c # b, a)) (split_at_first pat cs))"

fun expand_replacement :: "string \<Rightarrow> string \<Rightarrow> string \<Rightarrow> string \<Rightarrow> string" where
  "expand_replacement matched pre post (c # d # cs) =
     (if c = CHR ''$'' then
        (if d = CHR ''$'' then CHR ''$'' # expand_replacement matched pre post cs
         else if d = CHR ''&'' then matched @ expand_replacement matched pre post cs
         else if d = CHR 0x60 then pre @ expand_replacement matched pre post cs
         else if d = CHR 0x27 then post @ expand_replacement matched pre post cs
         else c # expand_replacement matched pre post (d # cs))
      else c # expand_replacement matched pre post (d # cs))"
| "expand_replacement matched pre post cs = cs"

definition js_replace :: "string \<Rightarrow> string \<Rightarrow> string \<Rightarrow> string" where
  "js_replace pat rep s =
     (case split_at_first pat s of
        None \<Rightarrow> s
      | Some (b, a) \<Rightarrow> b @ expand_replacement pat b a rep @ a)"

subsection \<open>Objects\<close>

text \<open>
  A style object is a finite map from property names to values; reading a property that is
  not there gives \<open>undefined\<close>. Object spread \<open>{ ...a, ...b }\<close> copies the own properties
  of \<open>a\<close> and then those of \<open>b\<close>, so it is \<open>a ++ b\<close>; a further \<open>key: v\<close> in the literal
  is a map update.
\<close>

type_synonym obj = "string \<rightharpoonup> jsval"

definition getprop :: "obj \<Rightarrow> string \<Rightarrow> jsval" where
  "getprop style k = (case style k of None \<Rightarrow> JUndefined | Some v \<Rightarrow> v)"

definition spread :: "obj \<Rightarrow> obj \<Rightarrow> obj" where
  "spread defaults overrides = defaults ++ overrides"

text \<open>The value of a style field as a template literal interpolates it.\<close>

definition interp :: "obj \<Rightarrow> string \<Rightarrow> string" where
  "interp style k = to_string (getprop style k)"

text \<open>
  An object literal inherits from \<open>Object.prototype\<close>: indexing it with one of these names
  finds the inherited member, not \<open>undefined\<close>.
\<close>

definition object_prototype_keys :: "string list" where
  "object_prototype_keys =
     [''constructor'', ''__defineGetter__'', ''__defineSetter__'', ''hasOwnProperty'',
      ''__lookupGetter__'', ''__lookupSetter__'', ''isPrototypeOf'', ''propertyIsEnumerable'',
      ''toString'', ''valueOf'', ''__proto__'', ''toLocaleString'']"

section \<open>Position resolution\<close>

datatype anchor = TopLeft | TopRight | BottomLeft | BottomRight | Center | TopCenter | BottomCenter

definition anchor_of_key :: "string \<Rightarrow> anchor option" where
  "anchor_of_key k =
     (if k = ''top-left'' then Some TopLeft
      else if k = ''top-right'' then Some TopRight
      else if k = ''bottom-left'' then Some BottomLeft
      else if k = ''bottom-right'' then Some BottomRight
      else if k = ''center'' then Some Center
      else if k = ''top-center'' then Some TopCenter
      else if k = ''bottom-center'' then Some BottomCenter
      else None)"

datatype position = Position (pos_x: jsval) (pos_y: jsval)

text \<open>The \<open>positions\<close> table of \<open>_calculatePosition\<close>, one entry per key.\<close>

fun positions :: "jsval \<Rightarrow> jsval \<Rightarrow> anchor \<Rightarrow> position" where
  "positions offsetX offsetY TopLeft = Position offsetX offsetY"
| "positions offsetX offsetY TopRight = Position (JStr (''w-tw-'' @ to_string offsetX)) offsetY"
| "positions offsetX offsetY BottomLeft = Position offsetX (JStr (''h-th-'' @ to_string offsetY))"
| "positions offsetX offsetY BottomRight =
     Position (JStr (''w-tw-'' @ to_string offsetX)) (JStr (''h-th-'' @ to_string offsetY))"
| "positions offsetX offsetY Center = Position (JStr ''(w-tw)/2'') (JStr ''(h-th)/2'')"
| "positions offsetX offsetY TopCenter = Position (JStr ''(w-tw)/2'') offsetY"
| "positions offsetX offsetY BottomCenter =
     Position (JStr ''(w-tw)/2'') (JStr (''h-th-'' @ to_string offsetY))"

text \<open>
  \<open>return positions[position] || positions[default]\<close>. Every entry of the table is an
  object, hence truthy. An inherited member of the table (a function, or
  \<open>Object.prototype\<close> itself) is truthy too and is what the method then returns; its \<open>x\<close>
  and \<open>y\<close> read as \<open>undefined\<close>. The four classes differ in the default key only.
\<close>

definition calculatePosition :: "anchor \<Rightarrow> jsval \<Rightarrow> jsval \<Rightarrow> jsval \<Rightarrow> position" where
  "calculatePosition dflt position offsetX offsetY =
     (case anchor_of_key (to_string position) of
        Some a \<Rightarrow> positions offsetX offsetY a
      | None \<Rightarrow>
          if to_string position \<in> set object_prototype_keys then Position JUndefined JUndefined
          else positions offsetX offsetY dflt)"

definition neon_calculatePosition :: "jsval \<Rightarrow> jsval \<Rightarrow> jsval \<Rightarrow> position" where
  "neon_calculatePosition = calculatePosition TopRight"

definition holo_calculatePosition :: "jsval \<Rightarrow> jsval \<Rightarrow> jsval \<Rightarrow> position" where
  "holo_calculatePosition = calculatePosition Center"

definition vintage_calculatePosition :: "jsval \<Rightarrow> jsval \<Rightarrow> jsval \<Rightarrow> position" where
  "vintage_calculatePosition = calculatePosition BottomCenter"

definition watermark_calculatePosition :: "jsval \<Rightarrow> jsval \<Rightarrow> jsval \<Rightarrow> position" where
  "watermark_calculatePosition = calculatePosition BottomRight"

definition style_position :: "(jsval \<Rightarrow> jsval \<Rightarrow> jsval \<Rightarrow> position) \<Rightarrow> obj \<Rightarrow> position" where
  "style_position calc style = calc (getprop style ''position'') (getprop style ''offsetX'') (getprop style ''offsetY'')"

section \<open>Draw operations and the renderer call\<close>

text \<open>
  Every text layer of the three engines is one instance of the template
  \<open>drawtext=text='T':fontsize=S:fontcolor=C@A:x=X:y=Y:font='F'\<close>, sometimes followed by
  border parameters. A layer is kept with its fields apart and rendered by the template.
\<close>

datatype drawtext =
  Drawtext (dt_text: string) (dt_fontsize: string) (dt_fontcolor: string) (dt_alpha: string)
    (dt_x: string) (dt_y: string) (dt_font: string) (dt_extra: string)

fun render :: "drawtext \<Rightarrow> string" where
  "render (Drawtext t fs c a x y f ex) =
     concat [''drawtext=text='', quoted t, '':fontsize='', fs, '':fontcolor='', c, ''@'', a,
             '':x='', x, '':y='', y, '':font='', quoted f, ex]"

text \<open>
  What an \<open>applyTo...\<close> method hands to ffmpeg before \<open>run()\<close>. Whether the run then
  resolves or rejects is the renderer's business.
\<close>

datatype filter_kind = ComplexFilter | VideoFilters

record ffmpeg_job =
  job_input :: string
  job_kind :: filter_kind
  job_filter :: string
  job_options :: "string list"
  job_output :: string

datatype js_error = TypeError string

section \<open>The neon engine\<close>

definition neon_defaultStyle :: obj where
  "neon_defaultStyle =
     [''text'' \<mapsto> JStr ''NEON'',
      ''font'' \<mapsto> JStr ''Arial Bold'',
      ''fontSize'' \<mapsto> int_lit 52,
      ''primaryColor'' \<mapsto> JStr ''#00ffff'',
      ''secondaryColor'' \<mapsto> JStr ''#ff00ff'',
      ''glowColor'' \<mapsto> JStr ''#00ffff'',
      ''opacity'' \<mapsto> JNum (Dec 85 2),
      ''rotation'' \<mapsto> int_lit 0,
      ''position'' \<mapsto> JStr ''top-right'',
      ''offsetX'' \<mapsto> int_lit 40,
      ''offsetY'' \<mapsto> int_lit 40,
      ''glowIntensity'' \<mapsto> int_lit 8,
      ''enableDoubleStroke'' \<mapsto> JBool True,
      ''strokeWidth'' \<mapsto> int_lit 3,
      ''animationSpeed'' \<mapsto> JNum (Dec 5 1),
      ''blinkEffect'' \<mapsto> JBool False,
      ''scanlineEffect'' \<mapsto> JBool True]"

text \<open>The three glow layers of \<open>_buildNeonFilter\<close>, in the order they are pushed.\<close>

definition neon_glow_layers :: "obj \<Rightarrow> position \<Rightarrow> drawtext list" where
  "neon_glow_layers style position =
     [Drawtext (interp style ''text'')
        (to_string (js_add (getprop style ''fontSize'') (js_mul (getprop style ''glowIntensity'') (int_lit 2))))
        (interp style ''glowColor'') ''0.2''
        (to_string (pos_x position)) (to_string (pos_y position)) (interp style ''font'') [],
      Drawtext (interp style ''text'')
        (to_string (js_add (getprop style ''fontSize'') (getprop style ''glowIntensity'')))
        (interp style ''glowColor'') ''0.4''
        (to_string (pos_x position)) (to_string (pos_y position)) (interp style ''font'') [],
      Drawtext (interp style ''text'')
        (to_string (js_add (getprop style ''fontSize'') (int_lit 2)))
        (interp style ''glowColor'') ''0.6''
        (to_string (pos_x position)) (to_string (pos_y position)) (interp style ''font'') []]"

definition neon_main_layer :: "obj \<Rightarrow> position \<Rightarrow> drawtext" where
  "neon_main_layer style position =
     Drawtext (interp style ''text'') (interp style ''fontSize'')
       (interp style ''primaryColor'') (interp style ''opacity'')
       (to_string (pos_x position)) (to_string (pos_y position)) (interp style ''font'')
       (if truthy (getprop style ''enableDoubleStroke'')
        then '':borderw='' @ interp style ''strokeWidth'' @ '':bordercolor='' @ interp style ''secondaryColor''
        else [])"

definition neon_blinkModulation :: "obj \<Rightarrow> string" where
  "neon_blinkModulation style =
     concat [''if(mod(floor(t*'', to_string (js_mul (getprop style ''animationSpeed'') (int_lit 2)),
             ''),2),'', interp style ''opacity'', '','',
             to_string (js_mul (getprop style ''opacity'') (JNum (Dec 3 1))), '')'']"

text \<open>
  The last element of \<open>layers\<close> when the method returns: the main text layer, with its
  opacity replaced by the blink expression when \<open>blinkEffect\<close> is set.
\<close>

definition neon_last_layer :: "obj \<Rightarrow> position \<Rightarrow> string" where
  "neon_last_layer style position =
     (if truthy (getprop style ''blinkEffect'')
      then js_replace (''@'' @ interp style ''opacity'') (''@'' @ neon_blinkModulation style)
             (render (neon_main_layer style position))
      else render (neon_main_layer style position))"

definition neon_layers :: "obj \<Rightarrow> string list" where
  "neon_layers style =
     (let position = style_position neon_calculatePosition style
      in map render (neon_glow_layers style position) @ [neon_last_layer style position])"

definition buildNeonFilter :: "obj \<Rightarrow> string" where
  "buildNeonFilter style = join '','' (neon_layers style)"

definition neon_applyToVideo :: "string \<Rightarrow> string \<Rightarrow> obj \<Rightarrow> js_error + ffmpeg_job" where
  "neon_applyToVideo inputPath outputPath customStyle =
     (let style = spread neon_defaultStyle customStyle;
          complexFilter = buildNeonFilter style
      in Inr \<lparr>job_input = inputPath, job_kind = ComplexFilter, job_filter = complexFilter,
               job_options = [''-c:v libx264'', ''-c:a copy'', ''-preset medium'', ''-crf 20'',
                              ''-pix_fmt yuv420p''],
               job_output = outputPath\<rparr>)"

text \<open>
  \<open>applyPulsingNeon\<close>: the two forced keys come after both spreads in the object literal.
\<close>

definition neon_pulsingStyle :: "obj \<Rightarrow> obj" where
  "neon_pulsingStyle customStyle =
     (spread neon_defaultStyle customStyle)
       (''animationSpeed'' \<mapsto> JNum (Dec 15 1), ''blinkEffect'' \<mapsto> JBool False)"

definition neon_pulsingFilter :: "obj \<Rightarrow> string" where
  "neon_pulsingFilter style =
     (let position = style_position neon_calculatePosition style;
          pulseExpression =
            concat [interp style ''opacity'', ''*(0.7+0.3*sin(t*'',
                    to_string (js_mul (getprop style ''animationSpeed'') (int_lit 3)), ''))''];
          glowExpression =
            concat [''0.4*(0.5+0.5*sin(t*'',
                    to_string (js_mul (getprop style ''animationSpeed'') (int_lit 2)), ''))'']
      in join '',''
           [render (Drawtext (interp style ''text'')
              (to_string (js_add (getprop style ''fontSize'') (js_mul (getprop style ''glowIntensity'') (int_lit 3))))
              (interp style ''glowColor'') glowExpression
              (to_string (pos_x position)) (to_string (pos_y position)) (interp style ''font'') []),
            render (Drawtext (interp style ''text'')
              (to_string (js_add (getprop style ''fontSize'') (getprop style ''glowIntensity'')))
              (interp style ''glowColor'') glowExpression
              (to_string (pos_x position)) (to_string (pos_y position)) (interp style ''font'') []),
            render (Drawtext (interp style ''text'') (interp style ''fontSize'')
              (interp style ''primaryColor'') pulseExpression
              (to_string (pos_x position)) (to_string (pos_y position)) (interp style ''font'')
              ('':borderw='' @ interp style ''strokeWidth'' @ '':bordercolor='' @ interp style ''secondaryColor''))])"

definition neon_applyPulsingNeon :: "string \<Rightarrow> string \<Rightarrow> obj \<Rightarrow> js_error + ffmpeg_job" where
  "neon_applyPulsingNeon inputPath outputPath customStyle =
     (let style = neon_pulsingStyle customStyle;
          complexFilter = neon_pulsingFilter style
      in Inr \<lparr>job_input = inputPath, job_kind = ComplexFilter, job_filter = complexFilter,
               job_options = [''-c:v libx264'', ''-c:a copy'', ''-preset medium'', ''-crf 18''],
               job_output = outputPath\<rparr>)"

subsection \<open>The logo reveal\<close>

text \<open>The two layers of \<open>revealFilter\<close>, in the order of the array.\<close>

definition neon_reveal_layers :: "obj \<Rightarrow> drawtext list" where
  "neon_reveal_layers style =
     (let position = style_position neon_calculatePosition style
      in [Drawtext (interp style ''text'') (interp style ''fontSize'')
            (interp style ''primaryColor'')
            (''min(t*0.5,'' @ interp style ''opacity'' @ '')'')
            (to_string (pos_x position)) (to_string (pos_y position)) (interp style ''font'') [],
          Drawtext (interp style ''text'')
            (to_string (js_add (getprop style ''fontSize'')
               (JNum (math_min (Dec 20 0) (to_number (js_mul (getprop style ''glowIntensity'') (int_lit 2)))))))
            (interp style ''glowColor'')
            ''min(t*0.3,0.4)''
            (to_string (pos_x position)) (to_string (pos_y position)) (interp style ''font'') []])"

definition neon_revealFilter :: "obj \<Rightarrow> string" where
  "neon_revealFilter style = join '','' (map render (neon_reveal_layers style))"

definition neon_createLogoReveal :: "string \<Rightarrow> string \<Rightarrow> obj \<Rightarrow> js_error + ffmpeg_job" where
  "neon_createLogoReveal inputPath outputPath customStyle =
     (let style = spread neon_defaultStyle customStyle;
          revealFilter = neon_revealFilter style
      in Inr \<lparr>job_input = inputPath, job_kind = ComplexFilter, job_filter = revealFilter,
               job_options = [''-c:v libx264'', ''-c:a copy'', ''-preset medium'', ''-crf 20''],
               job_output = outputPath\<rparr>)"

section \<open>The holographic engine\<close>

definition holo_defaultStyle :: obj where
  "holo_defaultStyle =
     [''text'' \<mapsto> JStr ''HOLOGRAM'',
      ''font'' \<mapsto> JStr ''Arial Bold'',
      ''fontSize'' \<mapsto> int_lit 50,
      ''primaryColor'' \<mapsto> JStr ''#00ffff'',
      ''secondaryColor'' \<mapsto> JStr ''#ff00ff'',
      ''tertiaryColor'' \<mapsto> JStr ''#ffff00'',
      ''accentColor'' \<mapsto> JStr ''#00ff00'',
      ''opacity'' \<mapsto> JNum (Dec 8 1),
      ''rotation'' \<mapsto> int_lit 0,
      ''position'' \<mapsto> JStr ''center'',
      ''offsetX'' \<mapsto> int_lit 0,
      ''offsetY'' \<mapsto> int_lit 0,
      ''scanlineSpeed'' \<mapsto> JNum (Dec 20 1),
      ''glitchIntensity'' \<mapsto> JNum (Dec 3 1),
      ''chromaticAberration'' \<mapsto> int_lit 3,
      ''enableScanlines'' \<mapsto> JBool True,
      ''enableGlitch'' \<mapsto> JBool True,
      ''enableRainbow'' \<mapsto> JBool True,
      ''enableFlicker'' \<mapsto> JBool False,
      ''hologramDepth'' \<mapsto> int_lit 5,
      ''interferencePattern'' \<mapsto> JBool True,
      ''prismEffect'' \<mapsto> JBool True]"

definition rainbowColors :: "string list" where
  "rainbowColors = [''#ff0000'', ''#ff7f00'', ''#ffff00'', ''#00ff00'', ''#0000ff'', ''#4b0082'', ''#9400d3'']"

text \<open>\<open>array.forEach((color, index) => ...)\<close>: the elements paired with their indices.\<close>

definition indexed :: "'a list \<Rightarrow> ('a \<times> nat) list" where
  "indexed xs = zip xs [0..<length xs]"

definition holo_rainbow_layers :: "obj \<Rightarrow> position \<Rightarrow> drawtext list" where
  "holo_rainbow_layers style position =
     (if truthy (getprop style ''enableRainbow'') then
        map (\<lambda>(color, index).
               let phase = js_mul (int_lit (int index)) (JNum (Dec 5 1));
                   colorOpacity =
                     concat [to_string (js_mul (getprop style ''opacity'') (JNum (Dec 6 1))),
                             ''*abs(sin(t*'', interp style ''scanlineSpeed'', ''+'', to_string phase, ''))'']
               in Drawtext (interp style ''text'') (interp style ''fontSize'') color colorOpacity
                    (to_string (pos_x position) @ ''+'' @ show_nat index)
                    (to_string (pos_y position) @ ''+'' @ show_nat index)
                    (interp style ''font'') [])
            (indexed rainbowColors)
      else [])"

definition holo_chromatic_layers :: "obj \<Rightarrow> position \<Rightarrow> drawtext list" where
  "holo_chromatic_layers style position =
     (if js_gt_zero (getprop style ''chromaticAberration'') then
        (let offset = interp style ''chromaticAberration'';
             alpha = to_string (js_mul (getprop style ''opacity'') (JNum (Dec 7 1)))
         in [Drawtext (interp style ''text'') (interp style ''fontSize'') ''#ff0000'' alpha
               (to_string (pos_x position) @ ''-'' @ offset) (to_string (pos_y position))
               (interp style ''font'') [],
             Drawtext (interp style ''text'') (interp style ''fontSize'') ''#00ff00'' alpha
               (to_string (pos_x position)) (to_string (pos_y position))
               (interp style ''font'') [],
             Drawtext (interp style ''text'') (interp style ''fontSize'') ''#0000ff'' alpha
               (to_string (pos_x position) @ ''+'' @ offset) (to_string (pos_y position))
               (interp style ''font'') []])
      else [])"

definition holo_interference_layers :: "obj \<Rightarrow> position \<Rightarrow> drawtext list" where
  "holo_interference_layers style position =
     (if truthy (getprop style ''interferencePattern'') then
        (let patternOpacity =
               concat [to_string (js_mul (getprop style ''opacity'') (JNum (Dec 4 1))),
                       ''*abs(sin(t*'', to_string (js_mul (getprop style ''scanlineSpeed'') (int_lit 3)), ''))'']
         in [Drawtext (interp style ''text'')
               (to_string (js_add (getprop style ''fontSize'') (int_lit 2)))
               (interp style ''primaryColor'') patternOpacity
               (to_string (pos_x position)) (to_string (pos_y position)) (interp style ''font'') []])
      else [])"

definition holo_glitch_layers :: "obj \<Rightarrow> position \<Rightarrow> drawtext list" where
  "holo_glitch_layers style position =
     (if truthy (getprop style ''enableGlitch'') then
        (let glitchX =
               concat [to_string (pos_x position), ''+'',
                       to_string (js_mul (getprop style ''glitchIntensity'') (int_lit 10)),
                       ''*sin(t*'', to_string (js_mul (getprop style ''scanlineSpeed'') (int_lit 5)), '')''];
             glitchY =
               concat [to_string (pos_y position), ''+'',
                       to_string (js_mul (getprop style ''glitchIntensity'') (int_lit 5)),
                       ''*cos(t*'', to_string (js_mul (getprop style ''scanlineSpeed'') (int_lit 7)), '')''];
             glitchOpacity =
               concat [interp style ''opacity'', ''*if(mod(floor(t*'',
                       to_string (js_mul (getprop style ''scanlineSpeed'') (int_lit 4)), ''),8),1,0.3)'']
         in [Drawtext (interp style ''text'') (interp style ''fontSize'')
               (interp style ''secondaryColor'') glitchOpacity glitchX glitchY (interp style ''font'') []])
      else [])"

text \<open>The layers the source calls the main holographic text: one per prism colour.\<close>

definition holo_prism_layers :: "obj \<Rightarrow> position \<Rightarrow> drawtext list" where
  "holo_prism_layers style position =
     (if truthy (getprop style ''prismEffect'') then
        map (\<lambda>(color, index).
               let prismOffset = show_nat (index * 2);
                   prismOpacity =
                     concat [to_string (js_mul (getprop style ''opacity'') (JNum (Dec 8 1))),
                             ''*abs(sin(t*'', interp style ''scanlineSpeed'', ''+'', show_nat index, ''))'']
               in Drawtext (interp style ''text'') (interp style ''fontSize'') color prismOpacity
                    (to_string (pos_x position) @ ''+'' @ prismOffset)
                    (to_string (pos_y position) @ ''+'' @ prismOffset)
                    (interp style ''font'') [])
            (indexed [interp style ''primaryColor'', interp style ''secondaryColor'',
                      interp style ''tertiaryColor'', interp style ''accentColor''])
      else [])"

definition holo_flicker_layers :: "obj \<Rightarrow> position \<Rightarrow> drawtext list" where
  "holo_flicker_layers style position =
     (if truthy (getprop style ''enableFlicker'') then
        (let flickerOpacity =
               concat [interp style ''opacity'', ''*if(mod(floor(t*'',
                       to_string (js_mul (getprop style ''scanlineSpeed'') (int_lit 8)), ''),3),1,0.1)'']
         in [Drawtext (interp style ''text'') (interp style ''fontSize'')
               (interp style ''primaryColor'') flickerOpacity
               (to_string (pos_x position)) (to_string (pos_y position)) (interp style ''font'') []])
      else [])"

definition holo_layers :: "obj \<Rightarrow> drawtext list" where
  "holo_layers style =
     (let position = style_position holo_calculatePosition style
      in holo_rainbow_layers style position
         @ holo_chromatic_layers style position
         @ holo_interference_layers style position
         @ holo_glitch_layers style position
         @ holo_prism_layers style position
         @ holo_flicker_layers style position)"

definition buildHolographicFilter :: "obj \<Rightarrow> string" where
  "buildHolographicFilter style = join '','' (map render (holo_layers style))"

definition holo_applyToVideo :: "string \<Rightarrow> string \<Rightarrow> obj \<Rightarrow> js_error + ffmpeg_job" where
  "holo_applyToVideo inputPath outputPath customStyle =
     (let style = spread holo_defaultStyle customStyle;
          complexFilter = buildHolographicFilter style
      in Inr \<lparr>job_input = inputPath, job_kind = ComplexFilter, job_filter = complexFilter,
               job_options = [''-c:v libx264'', ''-c:a copy'', ''-preset medium'', ''-crf 18'',
                              ''-pix_fmt yuv420p''],
               job_output = outputPath\<rparr>)"

section \<open>The vintage engine\<close>

definition vintage_defaultStyle :: obj where
  "vintage_defaultStyle =
     [''text'' \<mapsto> JStr ''VINTAGE'',
      ''font'' \<mapsto> JStr ''Times New Roman Bold'',
      ''fontSize'' \<mapsto> int_lit 48,
      ''primaryColor'' \<mapsto> JStr ''#d4af37'',
      ''shadowColor'' \<mapsto> JStr ''#8b4513'',
      ''patina'' \<mapsto> JStr ''#2f4f2f'',
      ''opacity'' \<mapsto> JNum (Dec 75 2),
      ''rotation'' \<mapsto> int_lit 0,
      ''position'' \<mapsto> JStr ''bottom-center'',
      ''offsetX'' \<mapsto> int_lit 0,
      ''offsetY'' \<mapsto> int_lit 50,
      ''shadowOffset'' \<mapsto> int_lit 3,
      ''enablePatina'' \<mapsto> JBool True,
      ''enableEmboss'' \<mapsto> JBool True,
      ''borderStyle'' \<mapsto> JStr ''ornate'',
      ''borderWidth'' \<mapsto> int_lit 4,
      ''ageEffect'' \<mapsto> JNum (Dec 3 1),
      ''sepia'' \<mapsto> JBool True,
      ''noise'' \<mapsto> JNum (Dec 15 2),
      ''vignette'' \<mapsto> JBool False]"

definition sepia_filter :: string where
  "sepia_filter = ''colorchannelmixer=.393:.769:.189:0:.349:.686:.168:0:.272:.534:.131''"

definition createOrnateBorder :: "obj \<Rightarrow> position \<Rightarrow> string" where
  "createOrnateBorder style position =
     (let boxWidth = ''tw+'' @ to_string (js_mul (getprop style ''borderWidth'') (int_lit 8));
          boxHeight = ''th+'' @ to_string (js_mul (getprop style ''borderWidth'') (int_lit 4));
          boxX = to_string (pos_x position) @ ''-'' @ to_string (js_mul (getprop style ''borderWidth'') (int_lit 4));
          boxY = to_string (pos_y position) @ ''-'' @ to_string (js_mul (getprop style ''borderWidth'') (int_lit 2))
      in concat [''drawbox=x='', boxX, '':y='', boxY, '':w='', boxWidth, '':h='', boxHeight,
                 '':color='', interp style ''patina'', ''@'', interp style ''ageEffect'',
                 '':t='', interp style ''borderWidth''])"

definition buildMainVintageText :: "obj \<Rightarrow> position \<Rightarrow> drawtext" where
  "buildMainVintageText style position =
     Drawtext (interp style ''text'') (interp style ''fontSize'')
       (interp style ''primaryColor'') (interp style ''opacity'')
       (to_string (pos_x position)) (to_string (pos_y position)) (interp style ''font'')
       (if js_gt_zero (getprop style ''borderWidth'')
        then concat ['':borderw='', interp style ''borderWidth'', '':bordercolor='',
                     interp style ''shadowColor'', ''@'',
                     to_string (js_mul (getprop style ''opacity'') (JNum (Dec 8 1)))]
        else [])"

text \<open>
  \<open>v.toString()\<close> is a method call: on \<open>undefined\<close> and \<open>null\<close> it throws a
  \<open>TypeError\<close>; on the other primitives it is the string conversion.
\<close>

fun toString_method :: "jsval \<Rightarrow> js_error + string" where
  "toString_method JUndefined = Inl (TypeError ''Cannot read properties of undefined (reading 'toString')'')"
| "toString_method JNull = Inl (TypeError ''Cannot read properties of null (reading 'toString')'')"
| "toString_method v = Inr (to_string v)"

text \<open>
  The embossed shadow layer as \<open>_buildVintageFilter\<close> (video) computes it:
  \<open>parseInt(position.x.toString()) + style.shadowOffset\<close> on each axis.
\<close>

definition vintage_emboss_video :: "obj \<Rightarrow> position \<Rightarrow> js_error + drawtext" where
  "vintage_emboss_video style position =
     (case toString_method (pos_x position) of
        Inl e \<Rightarrow> Inl e
      | Inr sx \<Rightarrow>
          (case toString_method (pos_y position) of
             Inl e \<Rightarrow> Inl e
           | Inr sy \<Rightarrow>
               (let embossX = js_add (JNum (parseInt sx)) (getprop style ''shadowOffset'');
                    embossY = js_add (JNum (parseInt sy)) (getprop style ''shadowOffset'')
                in Inr (Drawtext (interp style ''text'') (interp style ''fontSize'')
                          (interp style ''shadowColor'')
                          (to_string (js_mul (getprop style ''opacity'') (JNum (Dec 6 1))))
                          (to_string embossX) (to_string embossY) (interp style ''font'') []))))"

text \<open>The same layer as \<open>_buildStaticVintageFilter\<close> (image) writes it.\<close>

definition vintage_emboss_static :: "obj \<Rightarrow> position \<Rightarrow> drawtext" where
  "vintage_emboss_static style position =
     Drawtext (interp style ''text'') (interp style ''fontSize'')
       (interp style ''shadowColor'')
       (to_string (js_mul (getprop style ''opacity'') (JNum (Dec 6 1))))
       (to_string (pos_x position) @ ''+'' @ interp style ''shadowOffset'')
       (to_string (pos_y position) @ ''+'' @ interp style ''shadowOffset'')
       (interp style ''font'') []"

definition vintage_patina_layer :: "obj \<Rightarrow> position \<Rightarrow> drawtext" where
  "vintage_patina_layer style position =
     Drawtext (interp style ''text'')
       (to_string (js_add (getprop style ''fontSize'') (int_lit 1)))
       (interp style ''patina'') (interp style ''ageEffect'')
       (to_string (pos_x position)) (to_string (pos_y position)) (interp style ''font'') []"

definition buildVintageFilter :: "obj \<Rightarrow> js_error + string" where
  "buildVintageFilter style =
     (let position = style_position vintage_calculatePosition style;
          filters =
            (if truthy (getprop style ''sepia'') then [sepia_filter] else [])
            @ (if js_gt_zero (getprop style ''noise'')
               then [''noise=alls=''
                     @ num_to_string (math_floor (to_number (js_mul (getprop style ''noise'') (int_lit 100))))
                     @ '':allf=t+u'']
               else [])
            @ (if truthy (getprop style ''vignette'') then [''vignette=PI/4''] else [])
            @ (if getprop style ''borderStyle'' = JStr ''ornate''
               then [createOrnateBorder style position] else [])
      in case (if truthy (getprop style ''enableEmboss'')
               then map_sum id (\<lambda>l. [render l]) (vintage_emboss_video style position)
               else Inr [])
         of Inl e \<Rightarrow> Inl e
          | Inr emboss \<Rightarrow>
              Inr (join '',''
                     (filters @ emboss
                      @ (if truthy (getprop style ''enablePatina'')
                         then [render (vintage_patina_layer style position)] else [])
                      @ [render (buildMainVintageText style position)])))"

definition buildStaticVintageFilter :: "obj \<Rightarrow> string" where
  "buildStaticVintageFilter style =
     (let position = style_position vintage_calculatePosition style
      in join '',''
           ((if truthy (getprop style ''sepia'') then [sepia_filter] else [])
            @ (if getprop style ''borderStyle'' = JStr ''ornate''
               then [createOrnateBorder style position] else [])
            @ (if truthy (getprop style ''enableEmboss'')
               then [render (vintage_emboss_static style position)] else [])
            @ (if truthy (getprop style ''enablePatina'')
               then [render (vintage_patina_layer style position)] else [])
            @ [render (buildMainVintageText style position)]))"

definition vintage_applyToVideo :: "string \<Rightarrow> string \<Rightarrow> obj \<Rightarrow> js_error + ffmpeg_job" where
  "vintage_applyToVideo inputPath outputPath customStyle =
     (let style = spread vintage_defaultStyle customStyle
      in case buildVintageFilter style of
           Inl e \<Rightarrow> Inl e
         | Inr complexFilter \<Rightarrow>
             Inr \<lparr>job_input = inputPath, job_kind = ComplexFilter, job_filter = complexFilter,
                  job_options = [''-c:v libx264'', ''-c:a copy'', ''-preset slow'', ''-crf 18'',
                                 ''-pix_fmt yuv420p''],
                  job_output = outputPath\<rparr>)"

definition vintage_applyToImage :: "string \<Rightarrow> string \<Rightarrow> obj \<Rightarrow> js_error + ffmpeg_job" where
  "vintage_applyToImage inputPath outputPath customStyle =
     (let style = spread vintage_defaultStyle customStyle;
          filter = buildStaticVintageFilter style
      in Inr \<lparr>job_input = inputPath, job_kind = VideoFilters, job_filter = filter,
               job_options = [''-q:v 2''], job_output = outputPath\<rparr>)"

section \<open>The plain watermark styler: batches of variations\<close>

definition watermark_defaultStyle :: obj where
  "watermark_defaultStyle =
     [''text'' \<mapsto> JStr ''Samuel'',
      ''font'' \<mapsto> JStr ''Arial'',
      ''fontSize'' \<mapsto> int_lit 48,
      ''fontColor'' \<mapsto> JStr ''white'',
      ''opacity'' \<mapsto> JNum (Dec 48 2),
      ''rotation'' \<mapsto> int_lit (-6),
      ''position'' \<mapsto> JStr ''bottom-right'',
      ''offsetX'' \<mapsto> int_lit 30,
      ''offsetY'' \<mapsto> int_lit 30,
      ''shadowColor'' \<mapsto> JStr ''black'',
      ''shadowOffset'' \<mapsto> int_lit 2,
      ''enableShadow'' \<mapsto> JBool True,
      ''backgroundColor'' \<mapsto> JNull,
      ''borderWidth'' \<mapsto> int_lit 0,
      ''borderColor'' \<mapsto> JStr ''black'']"

text \<open>The style both \<open>applyToVideo\<close> and \<open>applyToImage\<close> start from.\<close>

definition watermark_resolveStyle :: "obj \<Rightarrow> obj" where
  "watermark_resolveStyle customStyle = spread watermark_defaultStyle customStyle"

definition to_lower :: "char \<Rightarrow> char" where
  "to_lower c =
     (case index_of c ''ABCDEFGHIJKLMNOPQRSTUVWXYZ'' of
        Some i \<Rightarrow> ''abcdefghijklmnopqrstuvwxyz'' ! i
      | None \<Rightarrow> c)"

definition videoExtensions :: "string list" where
  "videoExtensions = [''.mp4'', ''.avi'', ''.mov'', ''.mkv'', ''.webm'', ''.flv'']"

text \<open>
  What \<open>createVariations\<close> takes from outside: Node's \<open>path.join\<close> and \<open>path.extname\<close>,
  and the two apply methods it calls through \<open>this\<close> and awaits. An awaited call either
  resolves or rejects with an \<open>Error\<close>, whose message is all the loop reads; the calls
  run a renderer, so they take and return the state of the world.
\<close>

datatype settled = Resolved | Rejected string

record ('w, 'v) host =
  path_join :: "string \<Rightarrow> string \<Rightarrow> string"
  path_extname :: "string \<Rightarrow> string"
  applyToVideo :: "'w \<Rightarrow> string \<Rightarrow> string \<Rightarrow> 'v \<Rightarrow> settled \<times> 'w"
  applyToImage :: "'w \<Rightarrow> string \<Rightarrow> string \<Rightarrow> 'v \<Rightarrow> settled \<times> 'w"

definition isVideoFile :: "('w, 'v) host \<Rightarrow> string \<Rightarrow> bool" where
  "isVideoFile h filePath = (map to_lower (path_extname h filePath) \<in> set videoExtensions)"

definition getFileExtension :: "('w, 'v) host \<Rightarrow> string \<Rightarrow> string" where
  "getFileExtension h filePath = drop 1 (path_extname h filePath)"

text \<open>One element of the returned \<open>results\<close> array.\<close>

datatype 'v variation_result =
  Success (result_path: string) (result_variation: 'v)
| Failure (result_error: string) (result_variation: 'v)

fun result_success :: "'v variation_result \<Rightarrow> bool" where
  "result_success (Success p v) = True"
| "result_success (Failure e v) = False"

text \<open>The output path of the variation at index \<open>i\<close> (the files are numbered from 1).\<close>

definition variation_outputPath :: "('w, 'v) host \<Rightarrow> string \<Rightarrow> string \<Rightarrow> nat \<Rightarrow> string" where
  "variation_outputPath h inputPath outputDir i =
     path_join h outputDir (''watermarked_'' @ show_nat (i + 1) @ ''.'' @ getFileExtension h inputPath)"

text \<open>
  The \<open>for\<close> loop of \<open>createVariations\<close> from index \<open>i\<close> on, over the variations that
  are left, with the results pushed so far.
\<close>

fun variations_loop ::
  "('w, 'v) host \<Rightarrow> string \<Rightarrow> string \<Rightarrow> nat \<Rightarrow> 'v list \<Rightarrow> 'v variation_result list \<Rightarrow> 'w
     \<Rightarrow> 'v variation_result list \<times> 'w" where
  "variations_loop h inputPath outputDir i [] results w = (results, w)"
| "variations_loop h inputPath outputDir i (variation # rest) results w =
     (let outputPath = variation_outputPath h inputPath outputDir i;
          (outcome, w') =
            (if isVideoFile h inputPath then applyToVideo h w inputPath outputPath variation
             else applyToImage h w inputPath outputPath variation)
      in variations_loop h inputPath outputDir (i + 1) rest
           (results @ [case outcome of
                         Resolved \<Rightarrow> Success outputPath variation
                       | Rejected message \<Rightarrow> Failure message variation])
           w')"

definition createVariations ::
  "('w, 'v) host \<Rightarrow> 'w \<Rightarrow> string \<Rightarrow> string \<Rightarrow> 'v list \<Rightarrow> 'v variation_result list \<times> 'w" where
  "createVariations h w inputPath outputDir variations =
     variations_loop h inputPath outputDir 0 variations [] w"

section \<open>The downloader's styler registry\<close>

text \<open>
  \<open>watermarkStyles\<close> is an object literal filled with one styler instance per style file.
  \<open>getStyler\<close> returns \<open>this.watermarkStyles[styleType] || this.watermarkStyles['glitch'] || null\<close>:
  a registered styler, an inherited member of the object, or \<open>null\<close>.
\<close>

datatype 'st styler_lookup = Styler 'st | PrototypeMember string | Null

definition getStyler :: "(string \<rightharpoonup> 'st) \<Rightarrow> jsval \<Rightarrow> 'st styler_lookup" where
  "getStyler watermarkStyles styleType =
     (case watermarkStyles (to_string styleType) of
        Some s \<Rightarrow> Styler s
      | None \<Rightarrow>
          if to_string styleType \<in> set object_prototype_keys then PrototypeMember (to_string styleType)
          else (case watermarkStyles ''glitch'' of Some g \<Rightarrow> Styler g | None \<Rightarrow> Null))"

text \<open>
  The watermark step of \<open>downloadVideo\<close>, once the file is on disk: which styler, if any,
  is asked to render. A \<open>null\<close> styler skips the step and the download still reports
  success; an inherited member has no \<open>applyToVideo\<close>, the call throws and the \<open>catch\<close>
  turns it into a failed download.
\<close>

datatype 'st watermark_step = RenderWith 'st | Skipped | CallFailed js_error

definition downloadVideo_watermark ::
  "(string \<rightharpoonup> 'st) \<Rightarrow> bool \<Rightarrow> obj option \<Rightarrow> 'st watermark_step" where
  "downloadVideo_watermark watermarkStyles addWatermark watermarkStyle =
     (case watermarkStyle of
        None \<Rightarrow> Skipped
      | Some ws \<Rightarrow>
          if \<not> addWatermark then Skipped
          else
            (case getStyler watermarkStyles
                    (if truthy (getprop ws ''styleType'') then getprop ws ''styleType'' else JStr ''glitch'')
             of Styler s \<Rightarrow> RenderWith s
              | PrototypeMember k \<Rightarrow> CallFailed (TypeError ''styler.applyToVideo is not a function'')
              | Null \<Rightarrow> Skipped))"

section \<open>Notions used in the statements\<close>

text \<open>The position a style resolves to, per engine.\<close>

definition neon_position :: "obj \<Rightarrow> position" where
  "neon_position style = style_position neon_calculatePosition style"

definition holo_position :: "obj \<Rightarrow> position" where
  "holo_position style = style_position holo_calculatePosition style"

definition vintage_position :: "obj \<Rightarrow> position" where
  "vintage_position style = style_position vintage_calculatePosition style"

text \<open>The opacities of a list of layers, read as numbers, and their order.\<close>

definition layer_opacities :: "drawtext list \<Rightarrow> jsnum list" where
  "layer_opacities layers = map string_to_number (map dt_alpha layers)"

fun strictly_decreasing :: "jsnum list \<Rightarrow> bool" where
  "strictly_decreasing (a # b # rest) = (num_less b a \<and> strictly_decreasing (b # rest))"
| "strictly_decreasing _ = True"

fun strictly_increasing :: "jsnum list \<Rightarrow> bool" where
  "strictly_increasing (a # b # rest) = (num_less a b \<and> strictly_increasing (b # rest))"
| "strictly_increasing _ = True"

text \<open>Every optional effect of the holographic engine switched off, as its guards read it.\<close>

definition holo_all_disabled :: "obj \<Rightarrow> bool" where
  "holo_all_disabled style =
     (\<not> truthy (getprop style ''enableRainbow'') \<and> \<not> js_gt_zero (getprop style ''chromaticAberration'') \<and>
      \<not> truthy (getprop style ''interferencePattern'') \<and> \<not> truthy (getprop style ''enableGlitch'') \<and>
      \<not> truthy (getprop style ''prismEffect'') \<and> \<not> truthy (getprop style ''enableFlicker''))"

definition holo_effects_off :: obj where
  "holo_effects_off =
     [''enableRainbow'' \<mapsto> JBool False, ''chromaticAberration'' \<mapsto> int_lit 0,
      ''interferencePattern'' \<mapsto> JBool False, ''enableGlitch'' \<mapsto> JBool False,
      ''prismEffect'' \<mapsto> JBool False, ''enableFlicker'' \<mapsto> JBool False]"

text \<open>
  The opacity of a layer may be an expression that ffmpeg evaluates per frame over the time
  variable \<open>t\<close>. To speak of the function of \<open>t\<close> that the reveal opacity denotes, the
  expression \<open>min(t*rate,target)\<close> is read as a term: \<open>show_ffexpr\<close> gives back the text
  the code emits, \<open>eval_ffexpr\<close> is the reading of \<open>t\<close>, \<open>*\<close> and \<open>min\<close> over the reals.
\<close>

datatype ffexpr = Time | Const jsval | Times ffexpr ffexpr | Minimum ffexpr ffexpr

fun show_ffexpr :: "ffexpr \<Rightarrow> string" where
  "show_ffexpr Time = ''t''"
| "show_ffexpr (Const v) = to_string v"
| "show_ffexpr (Times a b) = show_ffexpr a @ ''*'' @ show_ffexpr b"
| "show_ffexpr (Minimum a b) = ''min(''  @ show_ffexpr a @ '','' @ show_ffexpr b @ '')''"

fun num_value :: "jsnum \<Rightarrow> real option" where
  "num_value (Dec m e) = Some (real_of_int m / 10 ^ e)"
| "num_value NaN = None"

fun eval_ffexpr :: "real \<Rightarrow> ffexpr \<Rightarrow> real option" where
  "eval_ffexpr t Time = Some t"
| "eval_ffexpr t (Const v) = (case v of JNum n \<Rightarrow> num_value n | _ \<Rightarrow> None)"
| "eval_ffexpr t (Times a b) =
     (case (eval_ffexpr t a, eval_ffexpr t b) of (Some x, Some y) \<Rightarrow> Some (x * y) | _ \<Rightarrow> None)"
| "eval_ffexpr t (Minimum a b) =
     (case (eval_ffexpr t a, eval_ffexpr t b) of (Some x, Some y) \<Rightarrow> Some (min x y) | _ \<Rightarrow> None)"

definition reveal_opacity :: "jsnum \<Rightarrow> jsval \<Rightarrow> ffexpr" where
  "reveal_opacity rate target = Minimum (Times Time (Const (JNum rate))) (Const target)"

text \<open>The main neon layer with the blink expression in the place of its opacity.\<close>

definition neon_blinking_main_layer :: "obj \<Rightarrow> position \<Rightarrow> drawtext" where
  "neon_blinking_main_layer style position =
     (case neon_main_layer style position of
        Drawtext t fs c a x y f ex \<Rightarrow> Drawtext t fs c (neon_blinkModulation style) x y f ex)"

text \<open>
  The call that the loop of \<open>createVariations\<close> awaits for the variation at index \<open>i\<close>,
  and the world that the calls for a list of variations leave behind, made one after the
  other from index \<open>i\<close> on.
\<close>

definition variation_call ::
  "('w, 'v) host \<Rightarrow> 'w \<Rightarrow> string \<Rightarrow> string \<Rightarrow> nat \<Rightarrow> 'v \<Rightarrow> settled \<times> 'w" where
  "variation_call h w inputPath outputDir i variation =
     (if isVideoFile h inputPath
      then applyToVideo h w inputPath (variation_outputPath h inputPath outputDir i) variation
      else applyToImage h w inputPath (variation_outputPath h inputPath outputDir i) variation)"

fun world_after :: "('w, 'v) host \<Rightarrow> string \<Rightarrow> string \<Rightarrow> nat \<Rightarrow> 'v list \<Rightarrow> 'w \<Rightarrow> 'w" where
  "world_after h inputPath outputDir i [] w = w"
| "world_after h inputPath outputDir i (variation # rest) w =
     world_after h inputPath outputDir (i + 1) rest
       (snd (variation_call h w inputPath outputDir i variation))"

text \<open>
  A host for running a batch by hand: every file is a video, and the render of a
  variation whose text is \<open>bad\<close> is rejected.
\<close>

definition example_host :: "(nat, obj) host" where
  "example_host =
     \<lparr>path_join = (\<lambda>dir name. dir @ ''/'' @ name),
      path_extname = (\<lambda>p. ''.mp4''),
      applyToVideo =
        (\<lambda>w inp out v. (if v ''text'' = Some (JStr ''bad'') then Rejected ''ffmpeg exited with code 1''
                         else Resolved, Suc w)),
      applyToImage = (\<lambda>w inp out v. (Resolved, Suc w))\<rparr>"

section \<open>The merge, key by key\<close>

lemma getprop_spread:
  "getprop (spread defaults overrides) k =
     (if k \<in> dom overrides then getprop overrides k else getprop defaults k)"
  by (auto simp: getprop_def spread_def map_add_def split: option.splits)

section \<open>Layer order in the pipelines\<close>

lemma neon_layers_eq:
  "neon_layers style = map render (neon_glow_layers style (neon_position style))
                         @ [neon_last_layer style (neon_position style)]"
  by (simp only: neon_layers_def neon_position_def Let_def)

lemma holo_layers_eq:
  "holo_layers style =
     (holo_rainbow_layers style (holo_position style) @ holo_chromatic_layers style (holo_position style)
      @ holo_interference_layers style (holo_position style) @ holo_glitch_layers style (holo_position style))
     @ holo_prism_layers style (holo_position style) @ holo_flicker_layers style (holo_position style)"
  by (simp only: holo_layers_def holo_position_def Let_def append_assoc)

lemma holo_prism_layers_length:
  "length (holo_prism_layers style position) = (if truthy (getprop style ''prismEffect'') then 4 else 0)"
  by (simp add: holo_prism_layers_def indexed_def)

lemma holo_effects_off_disabled: "holo_all_disabled (spread holo_defaultStyle holo_effects_off)"
  by (simp add: holo_all_disabled_def holo_effects_off_def getprop_def spread_def js_gt_zero_def)

lemma holo_layers_disabled: "holo_all_disabled style \<Longrightarrow> holo_layers style = []"
  by (simp add: holo_all_disabled_def holo_layers_def holo_rainbow_layers_def holo_chromatic_layers_def
        holo_interference_layers_def holo_glitch_layers_def holo_prism_layers_def holo_flicker_layers_def)

subsection \<open>Replacing the opacity of the main neon layer\<close>

lemma digits_no_dollar: "list_all (\<lambda>d. digit_char d \<noteq> CHR ''$'') [0..<10]"
  by code_simp

lemma digit_char_no_dollar: "d < 10 \<Longrightarrow> digit_char d \<noteq> CHR ''$''"
  using digits_no_dollar by (simp add: list_all_iff)

lemma show_nat_no_dollar: "CHR ''$'' \<notin> set (show_nat n)"
proof (induction n rule: show_nat.induct)
  case (1 n)
  show ?case
  proof (cases "n < 10")
    case True
    then show ?thesis using digit_char_no_dollar [of n] by (subst show_nat.simps) simp
  next
    case False
    have "n mod 10 < 10" by simp
    from digit_char_no_dollar [OF this] False 1 show ?thesis
      by (subst show_nat.simps) simp
  qed
qed

lemma pad_zeros_no_dollar: "CHR ''$'' \<notin> set s \<Longrightarrow> CHR ''$'' \<notin> set (pad_zeros n s)"
  by (simp add: pad_zeros_def)

lemma num_to_string_no_dollar: "CHR ''$'' \<notin> set (num_to_string n)"
proof (cases n)
  case NaN
  then show ?thesis by (simp add: num_to_string_def)
next
  case (Dec m e)
  obtain m' e' where s: "strip_zeros m e = (m', e')" by (cases "strip_zeros m e")
  show ?thesis
    using Dec s show_nat_no_dollar [of "nat \<bar>m'\<bar> div 10 ^ e'"]
      pad_zeros_no_dollar [OF show_nat_no_dollar, of e' "nat \<bar>m'\<bar> mod 10 ^ e'"]
    by (simp add: num_to_string_def)
qed

lemma expand_replacement_plain:
  "CHR ''$'' \<notin> set rep \<Longrightarrow> expand_replacement matched pre post rep = rep"
  by (induction matched pre post rep rule: expand_replacement.induct) auto

lemma split_at_first_fresh:
  "c \<notin> set p \<Longrightarrow> split_at_first (c # pat) (p @ c # pat @ rest) = Some (p, rest)"
  by (induction p) auto

lemma js_replace_fresh:
  "c \<notin> set p \<Longrightarrow> CHR ''$'' \<notin> set rep \<Longrightarrow>
     js_replace (c # pat) rep (p @ c # pat @ rest) = p @ rep @ rest"
  by (simp add: js_replace_def split_at_first_fresh expand_replacement_plain)

lemma neon_blinkModulation_no_dollar:
  "CHR ''$'' \<notin> set (interp style ''opacity'') \<Longrightarrow> CHR ''$'' \<notin> set (neon_blinkModulation style)"
  by (simp add: neon_blinkModulation_def js_mul_def num_to_string_no_dollar)

text \<open>
  When the first \<open>@\<close> of the rendered main layer is the one in front of its opacity, the
  replacement of \<open>blinkEffect\<close> puts the blink expression in the place of the opacity.
\<close>

lemma neon_last_layer_blink:
  assumes blink: "truthy (getprop style ''blinkEffect'')"
    and no_at_text: "CHR ''@'' \<notin> set (interp style ''text'')"
    and no_at_size: "CHR ''@'' \<notin> set (interp style ''fontSize'')"
    and no_at_colour: "CHR ''@'' \<notin> set (interp style ''primaryColor'')"
    and no_dollar: "CHR ''$'' \<notin> set (interp style ''opacity'')"
  shows "neon_last_layer style position = render (neon_blinking_main_layer style position)"
proof -
  obtain ex where main:
    "neon_main_layer style position =
       Drawtext (interp style ''text'') (interp style ''fontSize'') (interp style ''primaryColor'')
         (interp style ''opacity'') (to_string (pos_x position)) (to_string (pos_y position))
         (interp style ''font'') ex"
    by (simp add: neon_main_layer_def)
  let ?p = "''drawtext=text='' @ quoted (interp style ''text'') @ '':fontsize='' @ interp style ''fontSize''
             @ '':fontcolor='' @ interp style ''primaryColor''"
  let ?rest = "'':x='' @ to_string (pos_x position) @ '':y='' @ to_string (pos_y position)
                @ '':font='' @ quoted (interp style ''font'') @ ex"
  have fresh: "CHR ''@'' \<notin> set ?p"
    using no_at_text no_at_size no_at_colour by (simp add: quoted_def)
  have plain: "CHR ''$'' \<notin> set (''@'' @ neon_blinkModulation style)"
    using neon_blinkModulation_no_dollar [OF no_dollar] by simp
  have before: "render (neon_main_layer style position) = ?p @ CHR ''@'' # interp style ''opacity'' @ ?rest"
    by (simp add: main)
  have after: "render (neon_blinking_main_layer style position)
                 = ?p @ (''@'' @ neon_blinkModulation style) @ ?rest"
    by (simp add: neon_blinking_main_layer_def main)
  have "neon_last_layer style position =
          js_replace (CHR ''@'' # interp style ''opacity'') (''@'' @ neon_blinkModulation style)
            (?p @ CHR ''@'' # interp style ''opacity'' @ ?rest)"
    using blink by (simp only: neon_last_layer_def before if_True) simp
  also have "\<dots> = ?p @ (''@'' @ neon_blinkModulation style) @ ?rest"
    by (rule js_replace_fresh [OF fresh plain])
  finally show ?thesis by (simp only: after)
qed

subsection \<open>The main text and the optional effects\<close>

text \<open>
  Against C1 as stated: with every optional effect of the holographic engine disabled, the
  pipeline has no layer at all, so no main text operation either; the filter string is empty.
\<close>

theorem holo_pipeline_empty_counterexample:
  "holo_layers (spread holo_defaultStyle holo_effects_off) = [] \<and>
   buildHolographicFilter (spread holo_defaultStyle holo_effects_off) = []"
  using holo_layers_disabled [OF holo_effects_off_disabled]
  by (simp add: buildHolographicFilter_def)

text \<open>
  C1, amended. In the neon engine the pipeline always has four layers and the last one is
  the main text: the main text layer itself when \<open>blinkEffect\<close> is off; and when
  \<open>blinkEffect\<close> is on and neither the text, the font size nor the primary colour
  contains \<open>@\<close> and the opacity contains no \<open>$\<close>, the main text layer with the blink
  expression in the place of its opacity. In the holographic engine the main (prismatic)
  text layers exist only when \<open>prismEffect\<close> is on, four of them, followed by nothing but
  the flicker layer, which is there exactly when \<open>enableFlicker\<close> is on; with every
  optional effect disabled the holographic pipeline is empty.
\<close>

theorem main_text_last_by_family:
  "length (neon_layers style) = 4 \<and>
   (\<not> truthy (getprop style ''blinkEffect'') \<longrightarrow>
      last (neon_layers style) = render (neon_main_layer style (neon_position style))) \<and>
   (truthy (getprop style ''blinkEffect'') \<and>
    CHR ''@'' \<notin> set (interp style ''text'') \<and> CHR ''@'' \<notin> set (interp style ''fontSize'') \<and>
    CHR ''@'' \<notin> set (interp style ''primaryColor'') \<and> CHR ''$'' \<notin> set (interp style ''opacity'') \<longrightarrow>
      last (neon_layers style) = render (neon_blinking_main_layer style (neon_position style))) \<and>
   (holo_all_disabled hstyle \<longrightarrow> holo_layers hstyle = [] \<and> buildHolographicFilter hstyle = []) \<and>
   (\<not> truthy (getprop hstyle ''prismEffect'') \<longrightarrow> holo_prism_layers hstyle (holo_position hstyle) = []) \<and>
   (truthy (getprop hstyle ''prismEffect'') \<longrightarrow>
      length (holo_prism_layers hstyle (holo_position hstyle)) = 4 \<and>
      (\<exists>front. holo_layers hstyle =
         front @ holo_prism_layers hstyle (holo_position hstyle) @ holo_flicker_layers hstyle (holo_position hstyle))) \<and>
   length (holo_flicker_layers hstyle (holo_position hstyle))
     = (if truthy (getprop hstyle ''enableFlicker'') then 1 else 0)"
proof -
  have n1: "length (neon_layers style) = 4"
    by (simp add: neon_layers_eq neon_glow_layers_def)
  have n2: "last (neon_layers style) = neon_last_layer style (neon_position style)"
    by (simp add: neon_layers_eq)
  have n3: "\<not> truthy (getprop style ''blinkEffect'') \<Longrightarrow>
      last (neon_layers style) = render (neon_main_layer style (neon_position style))"
    by (simp add: n2 neon_last_layer_def)
  have n4: "truthy (getprop style ''blinkEffect'') \<and>
      CHR ''@'' \<notin> set (interp style ''text'') \<and> CHR ''@'' \<notin> set (interp style ''fontSize'') \<and>
      CHR ''@'' \<notin> set (interp style ''primaryColor'') \<and> CHR ''$'' \<notin> set (interp style ''opacity'') \<Longrightarrow>
      last (neon_layers style) = render (neon_blinking_main_layer style (neon_position style))"
    using neon_last_layer_blink [of style "neon_position style"] by (simp add: n2)
  have h1: "holo_all_disabled hstyle \<Longrightarrow> holo_layers hstyle = [] \<and> buildHolographicFilter hstyle = []"
    by (simp add: holo_layers_disabled buildHolographicFilter_def)
  have h2: "\<not> truthy (getprop hstyle ''prismEffect'') \<Longrightarrow> holo_prism_layers hstyle (holo_position hstyle) = []"
    by (simp add: holo_prism_layers_def)
  have h3: "\<exists>front. holo_layers hstyle =
         front @ holo_prism_layers hstyle (holo_position hstyle) @ holo_flicker_layers hstyle (holo_position hstyle)"
    using holo_layers_eq [of hstyle] by blast
  have h4: "length (holo_flicker_layers hstyle (holo_position hstyle))
     = (if truthy (getprop hstyle ''enableFlicker'') then 1 else 0)"
    by (simp add: holo_flicker_layers_def)
  have h5: "truthy (getprop hstyle ''prismEffect'') \<Longrightarrow>
      length (holo_prism_layers hstyle (holo_position hstyle)) = 4"
    by (simp add: holo_prism_layers_length)
  from n1 n3 n4 h1 h2 h3 h4 h5 show ?thesis by blast
qed

theorem main_text_last_by_family_witness:
  "\<not> truthy (getprop neon_defaultStyle ''blinkEffect'') \<and>
   last (neon_layers neon_defaultStyle) = render (neon_main_layer neon_defaultStyle (neon_position neon_defaultStyle)) \<and>
   truthy (getprop (spread neon_defaultStyle [''blinkEffect'' \<mapsto> JBool True]) ''blinkEffect'') \<and>
   CHR ''@'' \<notin> set (interp (spread neon_defaultStyle [''blinkEffect'' \<mapsto> JBool True]) ''text'') \<and>
   CHR ''@'' \<notin> set (interp (spread neon_defaultStyle [''blinkEffect'' \<mapsto> JBool True]) ''fontSize'') \<and>
   CHR ''@'' \<notin> set (interp (spread neon_defaultStyle [''blinkEffect'' \<mapsto> JBool True]) ''primaryColor'') \<and>
   CHR ''$'' \<notin> set (interp (spread neon_defaultStyle [''blinkEffect'' \<mapsto> JBool True]) ''opacity'') \<and>
   last (neon_layers (spread neon_defaultStyle [''blinkEffect'' \<mapsto> JBool True]))
     = render (neon_blinking_main_layer (spread neon_defaultStyle [''blinkEffect'' \<mapsto> JBool True])
                 (neon_position (spread neon_defaultStyle [''blinkEffect'' \<mapsto> JBool True]))) \<and>
   holo_all_disabled (spread holo_defaultStyle holo_effects_off) \<and>
   holo_layers (spread holo_defaultStyle holo_effects_off) = [] \<and>
   \<not> truthy (getprop (spread holo_defaultStyle holo_effects_off) ''prismEffect'') \<and>
   truthy (getprop holo_defaultStyle ''prismEffect'') \<and>
   length (holo_prism_layers holo_defaultStyle (holo_position holo_defaultStyle)) = 4"
proof -
  let ?blinking = "spread neon_defaultStyle [''blinkEffect'' \<mapsto> JBool True]"
  have a: "\<not> truthy (getprop neon_defaultStyle ''blinkEffect'')"
    by (simp add: getprop_def neon_defaultStyle_def)
  have b: "truthy (getprop ?blinking ''blinkEffect'')"
    by (simp add: getprop_def spread_def)
  have b1: "CHR ''@'' \<notin> set (interp ?blinking ''text'')"
    and b2: "CHR ''@'' \<notin> set (interp ?blinking ''fontSize'')"
    and b3: "CHR ''@'' \<notin> set (interp ?blinking ''primaryColor'')"
    and b4: "CHR ''$'' \<notin> set (interp ?blinking ''opacity'')"
    by code_simp+
  have c: "\<not> truthy (getprop (spread holo_defaultStyle holo_effects_off) ''prismEffect'')"
    by (simp add: getprop_def spread_def holo_effects_off_def)
  have d: "truthy (getprop holo_defaultStyle ''prismEffect'')"
    by (simp add: getprop_def holo_defaultStyle_def)
  note w1 = main_text_last_by_family [of neon_defaultStyle "spread holo_defaultStyle holo_effects_off"]
  note w2 = main_text_last_by_family [of ?blinking holo_defaultStyle]
  from w1 a have e: "last (neon_layers neon_defaultStyle)
      = render (neon_main_layer neon_defaultStyle (neon_position neon_defaultStyle))"
    by blast
  from w2 b b1 b2 b3 b4 have f: "last (neon_layers ?blinking)
      = render (neon_blinking_main_layer ?blinking (neon_position ?blinking))"
    by blast
  from w1 holo_effects_off_disabled have g: "holo_layers (spread holo_defaultStyle holo_effects_off) = []"
    by blast
  from w2 d have h: "length (holo_prism_layers holo_defaultStyle (holo_position holo_defaultStyle)) = 4"
    by blast
  from a b b1 b2 b3 b4 c d e f g h holo_effects_off_disabled show ?thesis
    by blast
qed

section \<open>The neon glow layers\<close>

lemma string_to_number_glow:
  "string_to_number ''0.2'' = Dec 2 1" "string_to_number ''0.4'' = Dec 4 1" "string_to_number ''0.6'' = Dec 6 1"
  by (simp_all add: string_to_number_def trim_def is_ws_def split_sign_def is_digit_def digit_value_def
        digits_value_def Let_def)

lemma neon_glow_opacities:
  "layer_opacities (neon_glow_layers style position) = [Dec 2 1, Dec 4 1, Dec 6 1]"
  by (simp add: layer_opacities_def neon_glow_layers_def string_to_number_glow)

lemma neon_default_filter:
  "buildNeonFilter neon_defaultStyle = ''drawtext=text='NEON':fontsize=68:fontcolor=#00ffff@0.2:x=w-tw-40:y=40:font='Arial Bold',drawtext=text='NEON':fontsize=60:fontcolor=#00ffff@0.4:x=w-tw-40:y=40:font='Arial Bold',drawtext=text='NEON':fontsize=54:fontcolor=#00ffff@0.6:x=w-tw-40:y=40:font='Arial Bold',drawtext=text='NEON':fontsize=52:fontcolor=#00ffff@0.85:x=w-tw-40:y=40:font='Arial Bold':borderw=3:bordercolor=#ff00ff''"
  by code_simp

text \<open>
  Against C2 as stated: in pipeline order, that is towards the main layer, the opacities of
  the three glow layers of the default neon style (font size 52, glow intensity 8) are
  0.2, 0.4, 0.6, which is not strictly decreasing.
\<close>

theorem neon_glow_opacities_not_decreasing:
  "\<not> strictly_decreasing (layer_opacities (neon_glow_layers neon_defaultStyle (neon_position neon_defaultStyle)))"
  by (simp add: neon_glow_opacities)

text \<open>
  C2, amended. With base font size 52 and glow intensity 8 the neon pipeline is three glow
  layers at font sizes 68, 60 and 54, in that order, with opacities 0.2, 0.4, 0.6 strictly
  increasing towards the main layer (the largest layer is the faintest), followed by one
  main text layer at font size 52; and for every style exactly three glow layers precede
  the main text layer.
\<close>

theorem neon_glow_layers_52_8:
  assumes "getprop style ''fontSize'' = int_lit 52" and "getprop style ''glowIntensity'' = int_lit 8"
  shows "map dt_fontsize (neon_glow_layers style (neon_position style)) = [''68'', ''60'', ''54''] \<and>
         layer_opacities (neon_glow_layers style (neon_position style)) = [Dec 2 1, Dec 4 1, Dec 6 1] \<and>
         strictly_increasing (layer_opacities (neon_glow_layers style (neon_position style))) \<and>
         dt_fontsize (neon_main_layer style (neon_position style)) = ''52'' \<and>
         neon_layers style = map render (neon_glow_layers style (neon_position style))
                              @ [neon_last_layer style (neon_position style)] \<and>
         length (neon_glow_layers style' position') = 3"
proof -
  let ?p = "neon_position style"
  have sizes: "map dt_fontsize (neon_glow_layers style ?p) = [''68'', ''60'', ''54'']"
    using assms
    by (simp add: neon_glow_layers_def js_add_def js_mul_def num_to_string_def show_nat.simps digit_char_def)
  have main: "dt_fontsize (neon_main_layer style ?p) = ''52''"
    using assms
    by (simp add: neon_main_layer_def interp_def num_to_string_def show_nat.simps digit_char_def)
  have count: "length (neon_glow_layers style' position') = 3"
    by (simp add: neon_glow_layers_def)
  from sizes main neon_layers_eq [of style] count show ?thesis
    by (simp only: neon_glow_opacities strictly_increasing.simps num_less.simps) simp
qed

theorem neon_glow_layers_52_8_witness:
  "getprop neon_defaultStyle ''fontSize'' = int_lit 52 \<and>
   getprop neon_defaultStyle ''glowIntensity'' = int_lit 8 \<and>
   map dt_fontsize (neon_glow_layers neon_defaultStyle (neon_position neon_defaultStyle)) = [''68'', ''60'', ''54''] \<and>
   layer_opacities (neon_glow_layers neon_defaultStyle (neon_position neon_defaultStyle)) = [Dec 2 1, Dec 4 1, Dec 6 1]"
proof -
  have a: "getprop neon_defaultStyle ''fontSize'' = int_lit 52"
    and b: "getprop neon_defaultStyle ''glowIntensity'' = int_lit 8"
    by (simp_all add: getprop_def neon_defaultStyle_def)
  from neon_glow_layers_52_8 [OF a b] a b show ?thesis by simp
qed

section \<open>Position resolution\<close>

lemma calculatePosition_named:
  "anchor_of_key (to_string position) = Some a \<Longrightarrow>
     calculatePosition dflt position offsetX offsetY = positions offsetX offsetY a"
  by (simp add: calculatePosition_def)

lemma calculatePosition_unknown:
  "anchor_of_key (to_string position) = None \<Longrightarrow> to_string position \<notin> set object_prototype_keys \<Longrightarrow>
     calculatePosition dflt position offsetX offsetY = positions offsetX offsetY dflt"
  by (simp add: calculatePosition_def)

lemma calculatePosition_bottom_right_30:
  "calculatePosition dflt (JStr ''bottom-right'') (int_lit 30) (int_lit 30)
     = Position (JStr ''w-tw-30'') (JStr ''h-th-30'')"
  by (simp add: calculatePosition_def anchor_of_key_def num_to_string_def show_nat.simps digit_char_def)

text \<open>
  C3. The seven named anchors resolve to their formulas, and an unknown anchor resolves to
  the default, unless the anchor string names a member that the \<open>positions\<close> table inherits
  from \<open>Object.prototype\<close>. For the anchor \<open>constructor\<close> the lookup finds the inherited
  member, the \<open>||\<close> fallback is not taken, and both coordinates read as \<open>undefined\<close>
  instead of the default anchor's formula (shown for the neon and the plain styler, next to
  what their default anchors give).
\<close>

theorem calculatePosition_inherited_key:
  "neon_calculatePosition (JStr ''constructor'') (int_lit 30) (int_lit 30) = Position JUndefined JUndefined \<and>
   watermark_calculatePosition (JStr ''constructor'') (int_lit 30) (int_lit 30) = Position JUndefined JUndefined \<and>
   neon_calculatePosition (JStr ''top-right'') (int_lit 30) (int_lit 30) = Position (JStr ''w-tw-30'') (int_lit 30) \<and>
   watermark_calculatePosition (JStr ''bottom-right'') (int_lit 30) (int_lit 30)
     = Position (JStr ''w-tw-30'') (JStr ''h-th-30'')"
  by (simp add: neon_calculatePosition_def watermark_calculatePosition_def calculatePosition_def
        anchor_of_key_def object_prototype_keys_def num_to_string_def show_nat.simps digit_char_def)

section \<open>The style merge\<close>

text \<open>
  C4. The style an apply method works with is the shallow merge of the family defaults and
  the caller's overrides: a key present in the overrides reads as the override, a key absent
  from the overrides reads as the default.
\<close>

theorem resolve_shallow_merge:
  "(k \<in> dom overrides \<longrightarrow> getprop (spread defaults overrides) k = getprop overrides k) \<and>
   (k \<notin> dom overrides \<longrightarrow> getprop (spread defaults overrides) k = getprop defaults k) \<and>
   watermark_resolveStyle overrides = spread watermark_defaultStyle overrides"
  by (simp add: getprop_spread watermark_resolveStyle_def)

theorem resolve_shallow_merge_witness:
  "''opacity'' \<in> dom [''opacity'' \<mapsto> JNum (Dec 3 1)] \<and>
   getprop (spread watermark_defaultStyle [''opacity'' \<mapsto> JNum (Dec 3 1)]) ''opacity'' = JNum (Dec 3 1) \<and>
   ''text'' \<notin> dom [''opacity'' \<mapsto> JNum (Dec 3 1)] \<and>
   getprop (spread watermark_defaultStyle [''opacity'' \<mapsto> JNum (Dec 3 1)]) ''text'' = JStr ''Samuel''"
  using resolve_shallow_merge [of "''opacity''" "[''opacity'' \<mapsto> JNum (Dec 3 1)]" watermark_defaultStyle]
        resolve_shallow_merge [of "''text''" "[''opacity'' \<mapsto> JNum (Dec 3 1)]" watermark_defaultStyle]
  by (simp add: getprop_def watermark_defaultStyle_def)

section \<open>Unknown style families\<close>

text \<open>
  Against C5 as stated: asked for the unknown family \<open>sparkle\<close>, a registry that holds a
  \<open>glitch\<close> styler answers with that styler; nothing is reported.
\<close>

theorem getStyler_substitutes_counterexample:
  "getStyler [''neon'' \<mapsto> ''NeonWatermarkStyler'', ''glitch'' \<mapsto> ''GlitchWatermarkStyler''] (JStr ''sparkle'')
     = Styler ''GlitchWatermarkStyler''"
  by (simp add: getStyler_def object_prototype_keys_def)

text \<open>
  C5, amended. For a family name that is not registered (and is not the name of an
  inherited object member) no error is raised: \<open>getStyler\<close> returns the \<open>glitch\<close> styler
  when one is registered and \<open>null\<close> otherwise, and the download's watermark step then
  renders with the \<open>glitch\<close> styler or is skipped.
\<close>

theorem getStyler_unknown_family:
  assumes "watermarkStyles (to_string styleType) = None"
    and "to_string styleType \<notin> set object_prototype_keys"
    and "getprop watermarkStyle ''styleType'' = styleType"
  shows "getStyler watermarkStyles styleType =
           (case watermarkStyles ''glitch'' of Some g \<Rightarrow> Styler g | None \<Rightarrow> Null) \<and>
         downloadVideo_watermark watermarkStyles True (Some watermarkStyle) =
           (case watermarkStyles ''glitch'' of Some g \<Rightarrow> RenderWith g | None \<Rightarrow> Skipped)"
proof -
  have direct: "getStyler watermarkStyles styleType =
      (case watermarkStyles ''glitch'' of Some g \<Rightarrow> Styler g | None \<Rightarrow> Null)"
    using assms(1,2) by (simp add: getStyler_def)
  have by_default: "getStyler watermarkStyles (JStr ''glitch'') =
      (case watermarkStyles ''glitch'' of Some g \<Rightarrow> Styler g | None \<Rightarrow> Null)"
    by (simp add: getStyler_def object_prototype_keys_def split: option.splits)
  have "downloadVideo_watermark watermarkStyles True (Some watermarkStyle) =
      (case watermarkStyles ''glitch'' of Some g \<Rightarrow> RenderWith g | None \<Rightarrow> Skipped)"
    using assms(3) direct by_default
    by (cases "truthy styleType") (simp_all add: downloadVideo_watermark_def split: option.splits)
  with direct show ?thesis by simp
qed

theorem getStyler_unknown_family_witness:
  "[''neon'' \<mapsto> ''NeonWatermarkStyler'', ''holo'' \<mapsto> ''HolographicWatermarkStyler'']
      (to_string (JStr ''sparkle'')) = None \<and>
   to_string (JStr ''sparkle'') \<notin> set object_prototype_keys \<and>
   getprop [''text'' \<mapsto> JStr ''HI'', ''styleType'' \<mapsto> JStr ''sparkle''] ''styleType'' = JStr ''sparkle'' \<and>
   getStyler [''neon'' \<mapsto> ''NeonWatermarkStyler'', ''holo'' \<mapsto> ''HolographicWatermarkStyler'']
      (JStr ''sparkle'') = Null \<and>
   downloadVideo_watermark [''neon'' \<mapsto> ''NeonWatermarkStyler'', ''holo'' \<mapsto> ''HolographicWatermarkStyler'']
      True (Some [''text'' \<mapsto> JStr ''HI'', ''styleType'' \<mapsto> JStr ''sparkle'']) = Skipped"
proof -
  have a: "[''neon'' \<mapsto> ''NeonWatermarkStyler'', ''holo'' \<mapsto> ''HolographicWatermarkStyler'']
             (to_string (JStr ''sparkle'')) = None"
    by simp
  have b: "to_string (JStr ''sparkle'') \<notin> set object_prototype_keys"
    by (simp add: object_prototype_keys_def)
  have c: "getprop [''text'' \<mapsto> JStr ''HI'', ''styleType'' \<mapsto> JStr ''sparkle''] ''styleType'' = JStr ''sparkle''"
    by (simp add: getprop_def)
  from getStyler_unknown_family
         [of "[''neon'' \<mapsto> ''NeonWatermarkStyler'', ''holo'' \<mapsto> ''HolographicWatermarkStyler'']"
             "JStr ''sparkle''" "[''text'' \<mapsto> JStr ''HI'', ''styleType'' \<mapsto> JStr ''sparkle'']", OF a b c]
       a b c
  show ?thesis by simp
qed

section \<open>Batches of variations\<close>

text \<open>One turn of the loop: whatever the outcome of the call, the loop goes on with the rest.\<close>

lemma variations_loop_step:
  "variation_call h w inputPath outputDir i variation = (outcome, w1) \<Longrightarrow>
   variations_loop h inputPath outputDir i (variation # rest) results w =
     variations_loop h inputPath outputDir (i + 1) rest
       (results @ [case outcome of
                     Resolved \<Rightarrow> Success (variation_outputPath h inputPath outputDir i) variation
                   | Rejected message \<Rightarrow> Failure message variation]) w1"
  by (simp add: variation_call_def Let_def)

text \<open>
  The loop from index \<open>i\<close> on: it makes the call for every variation that is left, in
  order, each in the world the call before it left, and appends the record of each outcome.
\<close>

lemma variations_loop_results:
  "variations_loop h inputPath outputDir i variations results w = (results', w') \<Longrightarrow>
     w' = world_after h inputPath outputDir i variations w \<and>
     (\<exists>new. results' = results @ new \<and> length new = length variations \<and>
       (\<forall>j < length variations.
          new ! j =
            (case fst (variation_call h (world_after h inputPath outputDir i (take j variations) w)
                         inputPath outputDir (i + j) (variations ! j)) of
               Resolved \<Rightarrow> Success (variation_outputPath h inputPath outputDir (i + j)) (variations ! j)
             | Rejected message \<Rightarrow> Failure message (variations ! j))))"
proof (induction variations arbitrary: i results w)
  case Nil
  then show ?case by simp
next
  case (Cons variation rest)
  obtain outcome w1 where call: "variation_call h w inputPath outputDir i variation = (outcome, w1)"
    by (cases "variation_call h w inputPath outputDir i variation")
  let ?r = "case outcome of
              Resolved \<Rightarrow> Success (variation_outputPath h inputPath outputDir i) variation
            | Rejected message \<Rightarrow> Failure message variation"
  from Cons.prems variations_loop_step [OF call]
  have "variations_loop h inputPath outputDir (i + 1) rest (results @ [?r]) w1 = (results', w')"
    by simp
  from Cons.IH [OF this] obtain new where
    world: "w' = world_after h inputPath outputDir (i + 1) rest w1" and
    new: "results' = (results @ [?r]) @ new" "length new = length rest"
      "\<forall>j < length rest.
          new ! j =
            (case fst (variation_call h (world_after h inputPath outputDir (i + 1) (take j rest) w1)
                         inputPath outputDir (i + 1 + j) (rest ! j)) of
               Resolved \<Rightarrow> Success (variation_outputPath h inputPath outputDir (i + 1 + j)) (rest ! j)
             | Rejected message \<Rightarrow> Failure message (rest ! j))"
    by blast
  have w1: "snd (variation_call h w inputPath outputDir i variation) = w1"
    and outcome: "fst (variation_call h w inputPath outputDir i variation) = outcome"
    using call by simp_all
  have each: "\<forall>j < length (variation # rest).
      (?r # new) ! j =
        (case fst (variation_call h (world_after h inputPath outputDir i (take j (variation # rest)) w)
                     inputPath outputDir (i + j) ((variation # rest) ! j)) of
           Resolved \<Rightarrow> Success (variation_outputPath h inputPath outputDir (i + j)) ((variation # rest) ! j)
         | Rejected message \<Rightarrow> Failure message ((variation # rest) ! j))"
  proof (intro allI impI)
    fix j assume j: "j < length (variation # rest)"
    show "(?r # new) ! j =
        (case fst (variation_call h (world_after h inputPath outputDir i (take j (variation # rest)) w)
                     inputPath outputDir (i + j) ((variation # rest) ! j)) of
           Resolved \<Rightarrow> Success (variation_outputPath h inputPath outputDir (i + j)) ((variation # rest) ! j)
         | Rejected message \<Rightarrow> Failure message ((variation # rest) ! j))"
    proof (cases j)
      case 0
      then show ?thesis by (simp add: outcome cong: settled.case_cong)
    next
      case (Suc j')
      with j have "j' < length rest" by simp
      with new(3) Suc show ?thesis by (simp add: w1 cong: settled.case_cong)
    qed
  qed
  have "w' = world_after h inputPath outputDir i (variation # rest) w"
    using world by (simp add: w1)
  moreover have "results' = results @ (?r # new)" "length (?r # new) = length (variation # rest)"
    using new(1,2) by simp_all
  ultimately show ?case using each by blast
qed

text \<open>
  C6. \<open>createVariations\<close> makes the call for every variation, in order, each in the world
  that the calls before it left, whether those resolved or rejected; the world it ends in
  is the one after all the calls. It returns one result per variation: the result at index
  \<open>i\<close> is the success record, with that variation's output path, when the call for
  variation \<open>i\<close> resolved, and the failure record with the error's message when it
  rejected; both carry variation \<open>i\<close>.
\<close>

theorem createVariations_isolates_failures:
  "createVariations h w inputPath outputDir variations = (results, w') \<Longrightarrow>
     length results = length variations \<and>
     w' = world_after h inputPath outputDir 0 variations w \<and>
     (\<forall>i < length variations.
        results ! i =
          (case fst (variation_call h (world_after h inputPath outputDir 0 (take i variations) w)
                       inputPath outputDir i (variations ! i)) of
             Resolved \<Rightarrow> Success (variation_outputPath h inputPath outputDir i) (variations ! i)
           | Rejected message \<Rightarrow> Failure message (variations ! i)))"
  using variations_loop_results [of h inputPath outputDir 0 variations "[]" w results w']
  by (auto simp: createVariations_def cong: settled.case_cong)

theorem createVariations_isolates_failures_witness:
  "createVariations example_host 0 ''in.mp4'' ''out''
      [[''text'' \<mapsto> JStr ''a''], [''text'' \<mapsto> JStr ''bad''], [''text'' \<mapsto> JStr ''c'']]
     = ([Success ''out/watermarked_1.mp4'' [''text'' \<mapsto> JStr ''a''],
         Failure ''ffmpeg exited with code 1'' [''text'' \<mapsto> JStr ''bad''],
         Success ''out/watermarked_3.mp4'' [''text'' \<mapsto> JStr ''c'']], 3) \<and>
   length [Success ''out/watermarked_1.mp4'' [''text'' \<mapsto> JStr ''a''],
           Failure ''ffmpeg exited with code 1'' [''text'' \<mapsto> JStr ''bad''],
           Success ''out/watermarked_3.mp4'' [''text'' \<mapsto> JStr ''c'']]
     = length [[''text'' \<mapsto> JStr ''a''], [''text'' \<mapsto> JStr ''bad''], [''text'' \<mapsto> JStr ''c'']] \<and>
   world_after example_host ''in.mp4'' ''out'' 0
      [[''text'' \<mapsto> JStr ''a''], [''text'' \<mapsto> JStr ''bad''], [''text'' \<mapsto> JStr ''c'']] 0 = 3 \<and>
   fst (variation_call example_host
          (world_after example_host ''in.mp4'' ''out'' 0 [[''text'' \<mapsto> JStr ''a'']] 0)
          ''in.mp4'' ''out'' 1 [''text'' \<mapsto> JStr ''bad'']) = Rejected ''ffmpeg exited with code 1''"
proof -
  have run: "createVariations example_host 0 ''in.mp4'' ''out''
      [[''text'' \<mapsto> JStr ''a''], [''text'' \<mapsto> JStr ''bad''], [''text'' \<mapsto> JStr ''c'']]
     = ([Success ''out/watermarked_1.mp4'' [''text'' \<mapsto> JStr ''a''],
         Failure ''ffmpeg exited with code 1'' [''text'' \<mapsto> JStr ''bad''],
         Success ''out/watermarked_3.mp4'' [''text'' \<mapsto> JStr ''c'']], 3)"
    by (simp add: createVariations_def example_host_def isVideoFile_def getFileExtension_def
          variation_outputPath_def videoExtensions_def to_lower_def show_nat.simps digit_char_def)
  have call: "fst (variation_call example_host
          (world_after example_host ''in.mp4'' ''out'' 0 [[''text'' \<mapsto> JStr ''a'']] 0)
          ''in.mp4'' ''out'' 1 [''text'' \<mapsto> JStr ''bad'']) = Rejected ''ffmpeg exited with code 1''"
    by (simp add: variation_call_def example_host_def isVideoFile_def videoExtensions_def to_lower_def)
  from createVariations_isolates_failures [OF run] run call show ?thesis by simp
qed

section \<open>The reveal expression\<close>

lemma show_reveal_opacity:
  "show_ffexpr (reveal_opacity rate target) = ''min(t*'' @ num_to_string rate @ '','' @ to_string target @ '')''"
  by (simp add: reveal_opacity_def)

lemma show_reveal_opacity_main:
  "show_ffexpr (reveal_opacity (Dec 5 1) target) = ''min(t*0.5,'' @ to_string target @ '')''"
  by (simp add: reveal_opacity_def num_to_string_def show_nat.simps digit_char_def pad_zeros_def)

lemma show_reveal_opacity_glow:
  "show_ffexpr (reveal_opacity (Dec 3 1) (JNum (Dec 4 1))) = ''min(t*0.3,0.4)''"
  by (simp add: reveal_opacity_def num_to_string_def show_nat.simps digit_char_def pad_zeros_def)

lemma eval_reveal_opacity:
  "eval_ffexpr t (reveal_opacity (Dec r k) (JNum (Dec m e))) =
     Some (min (t * (real_of_int r / 10 ^ k)) (real_of_int m / 10 ^ e))"
  by (simp add: reveal_opacity_def)

text \<open>What the reveal expression denotes, for a positive rate, at two times \<open>t\<close> and \<open>t'\<close>.\<close>

lemma reveal_opacity_values:
  assumes "0 < r"
  shows "\<exists>v v'. eval_ffexpr t (reveal_opacity (Dec r k) (JNum (Dec m e))) = Some v \<and>
                eval_ffexpr t' (reveal_opacity (Dec r k) (JNum (Dec m e))) = Some v' \<and>
                v = min (t * (real_of_int r / 10 ^ k)) (real_of_int m / 10 ^ e) \<and>
                (t \<le> t' \<longrightarrow> v \<le> v') \<and>
                v \<le> real_of_int m / 10 ^ e \<and>
                ((real_of_int m / 10 ^ e) / (real_of_int r / 10 ^ k) \<le> t \<longrightarrow> v = real_of_int m / 10 ^ e)"
proof -
  let ?rate = "real_of_int r / 10 ^ k" and ?target = "real_of_int m / 10 ^ e"
  have rate_pos: "0 < ?rate" using assms by simp
  have mono: "t \<le> t' \<Longrightarrow> min (t * ?rate) ?target \<le> min (t' * ?rate) ?target"
  proof -
    assume "t \<le> t'"
    with rate_pos have "t * ?rate \<le> t' * ?rate" by (intro mult_right_mono) simp_all
    then show ?thesis by (simp add: min_le_iff_disj)
  qed
  have reach: "?target / ?rate \<le> t \<Longrightarrow> min (t * ?rate) ?target = ?target"
  proof -
    assume "?target / ?rate \<le> t"
    with rate_pos have "?target \<le> t * ?rate" using pos_divide_le_eq [of ?rate ?target t] by simp
    then show ?thesis by (simp add: min_def)
  qed
  show ?thesis using mono reach by (simp add: eval_reveal_opacity)
qed

lemma neon_reveal_alphas:
  "map dt_alpha (neon_reveal_layers style) = [''min(t*0.5,'' @ interp style ''opacity'' @ '')'', ''min(t*0.3,0.4)'']"
  by (simp add: neon_reveal_layers_def Let_def)

text \<open>
  C7. \<open>createLogoReveal\<close> hands ffmpeg the two reveal layers, whose opacities are the
  texts \<open>min(t*0.5,opacity)\<close> and \<open>min(t*0.3,0.4)\<close>: the closed form
  \<open>min(t*rate,target)\<close>. For a numeric opacity, each of the two, read as a function of the
  time \<open>t\<close>, has the value \<open>min (t * rate) target\<close>, is non-decreasing in \<open>t\<close>, never
  exceeds its target, and equals the target for every \<open>t \<ge> target / rate\<close>. (The
  properties hold for every real \<open>t\<close>, in particular for \<open>t \<ge> 0\<close>.)
\<close>

theorem reveal_opacity_monotone_clamped:
  assumes "getprop (spread neon_defaultStyle customStyle) ''opacity'' = JNum (Dec m e)"
  shows "neon_createLogoReveal inputPath outputPath customStyle =
           Inr \<lparr>job_input = inputPath, job_kind = ComplexFilter,
                job_filter = join '','' (map render (neon_reveal_layers (spread neon_defaultStyle customStyle))),
                job_options = [''-c:v libx264'', ''-c:a copy'', ''-preset medium'', ''-crf 20''],
                job_output = outputPath\<rparr> \<and>
         map dt_alpha (neon_reveal_layers (spread neon_defaultStyle customStyle))
           = [''min(t*0.5,'' @ num_to_string (Dec m e) @ '')'', ''min(t*0.3,0.4)''] \<and>
         map dt_alpha (neon_reveal_layers (spread neon_defaultStyle customStyle))
           = [show_ffexpr (reveal_opacity (Dec 5 1) (JNum (Dec m e))),
              show_ffexpr (reveal_opacity (Dec 3 1) (JNum (Dec 4 1)))] \<and>
         (\<exists>v v'. eval_ffexpr t (reveal_opacity (Dec 5 1) (JNum (Dec m e))) = Some v \<and>
                 eval_ffexpr t' (reveal_opacity (Dec 5 1) (JNum (Dec m e))) = Some v' \<and>
                 v = min (t * (5 / 10)) (real_of_int m / 10 ^ e) \<and>
                 (t \<le> t' \<longrightarrow> v \<le> v') \<and>
                 v \<le> real_of_int m / 10 ^ e \<and>
                 ((real_of_int m / 10 ^ e) / (5 / 10) \<le> t \<longrightarrow> v = real_of_int m / 10 ^ e)) \<and>
         (\<exists>v v'. eval_ffexpr t (reveal_opacity (Dec 3 1) (JNum (Dec 4 1))) = Some v \<and>
                 eval_ffexpr t' (reveal_opacity (Dec 3 1) (JNum (Dec 4 1))) = Some v' \<and>
                 v = min (t * (3 / 10)) (4 / 10) \<and>
                 (t \<le> t' \<longrightarrow> v \<le> v') \<and>
                 v \<le> 4 / 10 \<and>
                 ((4 / 10) / (3 / 10) \<le> t \<longrightarrow> v = 4 / 10))"
proof -
  let ?style = "spread neon_defaultStyle customStyle"
  have job: "neon_createLogoReveal inputPath outputPath customStyle =
           Inr \<lparr>job_input = inputPath, job_kind = ComplexFilter,
                job_filter = join '','' (map render (neon_reveal_layers ?style)),
                job_options = [''-c:v libx264'', ''-c:a copy'', ''-preset medium'', ''-crf 20''],
                job_output = outputPath\<rparr>"
    by (simp add: neon_createLogoReveal_def neon_revealFilter_def)
  have opacity: "interp ?style ''opacity'' = num_to_string (Dec m e)"
    using assms by (simp add: interp_def)
  have texts: "map dt_alpha (neon_reveal_layers ?style)
           = [''min(t*0.5,'' @ num_to_string (Dec m e) @ '')'', ''min(t*0.3,0.4)'']"
    by (simp only: neon_reveal_alphas opacity)
  have terms: "map dt_alpha (neon_reveal_layers ?style)
           = [show_ffexpr (reveal_opacity (Dec 5 1) (JNum (Dec m e))),
              show_ffexpr (reveal_opacity (Dec 3 1) (JNum (Dec 4 1)))]"
    by (simp only: texts show_reveal_opacity_main show_reveal_opacity_glow to_string.simps)
  have main: "\<exists>v v'. eval_ffexpr t (reveal_opacity (Dec 5 1) (JNum (Dec m e))) = Some v \<and>
                 eval_ffexpr t' (reveal_opacity (Dec 5 1) (JNum (Dec m e))) = Some v' \<and>
                 v = min (t * (5 / 10)) (real_of_int m / 10 ^ e) \<and>
                 (t \<le> t' \<longrightarrow> v \<le> v') \<and>
                 v \<le> real_of_int m / 10 ^ e \<and>
                 ((real_of_int m / 10 ^ e) / (5 / 10) \<le> t \<longrightarrow> v = real_of_int m / 10 ^ e)"
    using reveal_opacity_values [of 5 t 1 m e t'] by simp
  have glow: "\<exists>v v'. eval_ffexpr t (reveal_opacity (Dec 3 1) (JNum (Dec 4 1))) = Some v \<and>
                 eval_ffexpr t' (reveal_opacity (Dec 3 1) (JNum (Dec 4 1))) = Some v' \<and>
                 v = min (t * (3 / 10)) (4 / 10) \<and>
                 (t \<le> t' \<longrightarrow> v \<le> v') \<and>
                 v \<le> 4 / 10 \<and>
                 ((4 / 10) / (3 / 10) \<le> t \<longrightarrow> v = 4 / 10)"
    using reveal_opacity_values [of 3 t 1 4 1 t'] by simp
  from job texts terms main glow show ?thesis by blast
qed

theorem reveal_opacity_monotone_clamped_witness:
  "getprop (spread neon_defaultStyle Map.empty) ''opacity'' = JNum (Dec 85 2) \<and>
   map dt_alpha (neon_reveal_layers (spread neon_defaultStyle Map.empty))
     = [''min(t*0.5,0.85)'', ''min(t*0.3,0.4)''] \<and>
   eval_ffexpr 1 (reveal_opacity (Dec 5 1) (JNum (Dec 85 2))) = Some (1 / 2) \<and>
   eval_ffexpr 2 (reveal_opacity (Dec 5 1) (JNum (Dec 85 2))) = Some (85 / 100) \<and>
   (1::real) \<le> 2 \<and> (1 / 2 :: real) \<le> 85 / 100 \<and> ((85 / 100) / (5 / 10) :: real) \<le> 2"
proof -
  have a: "getprop (spread neon_defaultStyle Map.empty) ''opacity'' = JNum (Dec 85 2)"
    by (simp add: getprop_def spread_def neon_defaultStyle_def)
  have b: "num_to_string (Dec 85 2) = ''0.85''"
    by code_simp
  from reveal_opacity_monotone_clamped [OF a, of _ _ 1 2] a b show ?thesis
    by (simp add: eval_reveal_opacity)
qed

section \<open>No validation of overrides\<close>

text \<open>
  Against C8 as stated: an opacity override that is not a number, the string \<open>abc\<close>, does
  not fail the call. The style is merged, the filter is built with \<open>@abc\<close> in the main
  layer, and the render is dispatched.
\<close>

theorem neon_accepts_wrong_type_counterexample:
  "neon_applyToVideo ''in.mp4'' ''out.mp4'' [''opacity'' \<mapsto> JStr ''abc''] =
     Inr \<lparr>job_input = ''in.mp4'', job_kind = ComplexFilter,
          job_filter = ''drawtext=text='NEON':fontsize=68:fontcolor=#00ffff@0.2:x=w-tw-40:y=40:font='Arial Bold',drawtext=text='NEON':fontsize=60:fontcolor=#00ffff@0.4:x=w-tw-40:y=40:font='Arial Bold',drawtext=text='NEON':fontsize=54:fontcolor=#00ffff@0.6:x=w-tw-40:y=40:font='Arial Bold',drawtext=text='NEON':fontsize=52:fontcolor=#00ffff@abc:x=w-tw-40:y=40:font='Arial Bold':borderw=3:bordercolor=#ff00ff'',
          job_options = [''-c:v libx264'', ''-c:a copy'', ''-preset medium'', ''-crf 20'', ''-pix_fmt yuv420p''],
          job_output = ''out.mp4''\<rparr>"
  by code_simp

text \<open>
  C8, amended. For override records whose values are \<open>undefined\<close>, \<open>null\<close>, booleans,
  numbers or strings (the values of this model), the neon engine validates nothing and
  raises no \<open>InvalidConfig\<close>: whatever the semantic type or the range of a value,
  \<open>applyToVideo\<close> dispatches the render with the filter built from the merged style, every
  overridden key holds the caller's value as it was given, and an overridden opacity is
  interpolated unchanged into the main text layer (the last layer, when \<open>blinkEffect\<close> is
  off). Nothing is said about Symbol, BigInt or object values.
\<close>

theorem neon_overrides_not_validated:
  "neon_applyToVideo inputPath outputPath customStyle =
     Inr \<lparr>job_input = inputPath, job_kind = ComplexFilter,
          job_filter = join '','' (neon_layers (spread neon_defaultStyle customStyle)),
          job_options = [''-c:v libx264'', ''-c:a copy'', ''-preset medium'', ''-crf 20'', ''-pix_fmt yuv420p''],
          job_output = outputPath\<rparr> \<and>
   (k \<in> dom customStyle \<longrightarrow> getprop (spread neon_defaultStyle customStyle) k = getprop customStyle k) \<and>
   (customStyle ''opacity'' = Some v \<and>
    \<not> truthy (getprop (spread neon_defaultStyle customStyle) ''blinkEffect'') \<longrightarrow>
      (\<exists>layer. last (neon_layers (spread neon_defaultStyle customStyle)) = render layer \<and>
               dt_alpha layer = to_string v))"
proof -
  let ?style = "spread neon_defaultStyle customStyle"
  have job: "neon_applyToVideo inputPath outputPath customStyle =
     Inr \<lparr>job_input = inputPath, job_kind = ComplexFilter,
          job_filter = join '','' (neon_layers ?style),
          job_options = [''-c:v libx264'', ''-c:a copy'', ''-preset medium'', ''-crf 20'', ''-pix_fmt yuv420p''],
          job_output = outputPath\<rparr>"
    by (simp add: neon_applyToVideo_def buildNeonFilter_def)
  have merged: "k \<in> dom customStyle \<Longrightarrow> getprop ?style k = getprop customStyle k"
    by (simp add: getprop_spread)
  have flows: "\<exists>layer. last (neon_layers ?style) = render layer \<and> dt_alpha layer = to_string v"
    if "customStyle ''opacity'' = Some v" and "\<not> truthy (getprop ?style ''blinkEffect'')"
  proof -
    from that(1) have "interp ?style ''opacity'' = to_string v"
      by (simp add: interp_def getprop_def spread_def)
    then have "dt_alpha (neon_main_layer ?style (neon_position ?style)) = to_string v"
      by (simp add: neon_main_layer_def)
    moreover from that(2) have "last (neon_layers ?style) = render (neon_main_layer ?style (neon_position ?style))"
      by (simp add: neon_layers_eq neon_last_layer_def)
    ultimately show ?thesis by blast
  qed
  from job merged flows show ?thesis by blast
qed

theorem neon_overrides_not_validated_witness:
  "''opacity'' \<in> dom [''opacity'' \<mapsto> int_lit 7, ''fontSize'' \<mapsto> JBool True] \<and>
   getprop (spread neon_defaultStyle [''opacity'' \<mapsto> int_lit 7, ''fontSize'' \<mapsto> JBool True]) ''opacity'' = int_lit 7 \<and>
   ''fontSize'' \<in> dom [''opacity'' \<mapsto> int_lit 7, ''fontSize'' \<mapsto> JBool True] \<and>
   getprop (spread neon_defaultStyle [''opacity'' \<mapsto> int_lit 7, ''fontSize'' \<mapsto> JBool True]) ''fontSize'' = JBool True \<and>
   [''opacity'' \<mapsto> int_lit 7, ''fontSize'' \<mapsto> JBool True] ''opacity'' = Some (int_lit 7) \<and>
   \<not> truthy (getprop (spread neon_defaultStyle [''opacity'' \<mapsto> int_lit 7, ''fontSize'' \<mapsto> JBool True]) ''blinkEffect'') \<and>
   (\<exists>layer. last (neon_layers (spread neon_defaultStyle [''opacity'' \<mapsto> int_lit 7, ''fontSize'' \<mapsto> JBool True]))
               = render layer \<and> dt_alpha layer = to_string (int_lit 7))"
proof -
  let ?custom = "[''opacity'' \<mapsto> int_lit 7, ''fontSize'' \<mapsto> JBool True]"
  have a: "''opacity'' \<in> dom ?custom" and b: "''fontSize'' \<in> dom ?custom"
    and c: "?custom ''opacity'' = Some (int_lit 7)"
    by simp_all
  have d: "\<not> truthy (getprop (spread neon_defaultStyle ?custom) ''blinkEffect'')"
    by (simp add: getprop_def spread_def neon_defaultStyle_def)
  have e: "getprop ?custom ''opacity'' = int_lit 7" "getprop ?custom ''fontSize'' = JBool True"
    by (simp_all add: getprop_def)
  note w1 = neon_overrides_not_validated [of _ _ ?custom "''opacity''" "int_lit 7"]
  note w2 = neon_overrides_not_validated [of _ _ ?custom "''fontSize''" "int_lit 7"]
  from w1 a e(1) have f: "getprop (spread neon_defaultStyle ?custom) ''opacity'' = int_lit 7"
    by simp
  from w2 b e(2) have g: "getprop (spread neon_defaultStyle ?custom) ''fontSize'' = JBool True"
    by simp
  from w1 c d have h: "\<exists>layer. last (neon_layers (spread neon_defaultStyle ?custom)) = render layer \<and>
      dt_alpha layer = to_string (int_lit 7)"
    by blast
  from a b c d f g h show ?thesis by blast
qed

section \<open>The embossed shadow of the vintage engine\<close>

lemma vintage_video_filter_half_opacity:
  "buildVintageFilter (spread vintage_defaultStyle [''opacity'' \<mapsto> JNum (Dec 5 1)]) =
     Inr ''colorchannelmixer=.393:.769:.189:0:.349:.686:.168:0:.272:.534:.131,noise=alls=15:allf=t+u,drawbox=x=(w-tw)/2-16:y=h-th-50-8:w=tw+32:h=th+16:color=#2f4f2f@0.3:t=4,drawtext=text='VINTAGE':fontsize=48:fontcolor=#8b4513@0.3:x=NaN:y=NaN:font='Times New Roman Bold',drawtext=text='VINTAGE':fontsize=49:fontcolor=#2f4f2f@0.3:x=(w-tw)/2:y=h-th-50:font='Times New Roman Bold',drawtext=text='VINTAGE':fontsize=48:fontcolor=#d4af37@0.5:x=(w-tw)/2:y=h-th-50:font='Times New Roman Bold':borderw=4:bordercolor=#8b4513@0.4''"
  by code_simp

lemma vintage_static_filter_half_opacity:
  "buildStaticVintageFilter (spread vintage_defaultStyle [''opacity'' \<mapsto> JNum (Dec 5 1)]) =
     ''colorchannelmixer=.393:.769:.189:0:.349:.686:.168:0:.272:.534:.131,drawbox=x=(w-tw)/2-16:y=h-th-50-8:w=tw+32:h=th+16:color=#2f4f2f@0.3:t=4,drawtext=text='VINTAGE':fontsize=48:fontcolor=#8b4513@0.3:x=(w-tw)/2+3:y=h-th-50+3:font='Times New Roman Bold',drawtext=text='VINTAGE':fontsize=49:fontcolor=#2f4f2f@0.3:x=(w-tw)/2:y=h-th-50:font='Times New Roman Bold',drawtext=text='VINTAGE':fontsize=48:fontcolor=#d4af37@0.5:x=(w-tw)/2:y=h-th-50:font='Times New Roman Bold':borderw=4:bordercolor=#8b4513@0.4''"
  by code_simp

lemma vintage_emboss_opacity:
  "dt_alpha (vintage_emboss_static style position)
     = to_string (js_mul (getprop style ''opacity'') (JNum (Dec 6 1))) \<and>
   (vintage_emboss_video style position = Inr layer \<longrightarrow>
      dt_alpha layer = to_string (js_mul (getprop style ''opacity'') (JNum (Dec 6 1))))"
  by (auto simp: vintage_emboss_static_def vintage_emboss_video_def Let_def split: sum.splits)

text \<open>
  C9. In the video pipeline the embossed shadow is not placed at the main text's position
  shifted by \<open>shadowOffset\<close> when the anchor resolves to a symbolic coordinate: the method
  takes \<open>parseInt\<close> of the coordinate. For the default vintage style (anchor
  \<open>bottom-center\<close>, shadow offset 3) the main text is at
  \<open>((w-tw)/2, h-th-50)\<close> and the image pipeline puts the shadow at
  \<open>((w-tw)/2+3, h-th-50+3)\<close>, but the video pipeline puts it at \<open>(NaN, NaN)\<close>.
\<close>

theorem vintage_emboss_video_loses_anchor:
  "map_sum id dt_x (vintage_emboss_video vintage_defaultStyle (vintage_position vintage_defaultStyle))
     = Inr ''NaN'' \<and>
   map_sum id dt_y (vintage_emboss_video vintage_defaultStyle (vintage_position vintage_defaultStyle))
     = Inr ''NaN'' \<and>
   dt_x (buildMainVintageText vintage_defaultStyle (vintage_position vintage_defaultStyle)) = ''(w-tw)/2'' \<and>
   dt_y (buildMainVintageText vintage_defaultStyle (vintage_position vintage_defaultStyle)) = ''h-th-50'' \<and>
   dt_x (vintage_emboss_static vintage_defaultStyle (vintage_position vintage_defaultStyle)) = ''(w-tw)/2+3'' \<and>
   dt_y (vintage_emboss_static vintage_defaultStyle (vintage_position vintage_defaultStyle)) = ''h-th-50+3''"
  by (simp add: vintage_emboss_video_def vintage_emboss_static_def buildMainVintageText_def
        vintage_position_def vintage_calculatePosition_def vintage_defaultStyle_def
        getprop_def interp_def style_position_def calculatePosition_def anchor_of_key_def
        object_prototype_keys_def num_to_string_def show_nat.simps digit_char_def
        js_add_def parseInt_def split_sign_def is_ws_def is_digit_def digit_value_def)

section \<open>The pulsing neon entry point\<close>

text \<open>
  C10. Whatever the caller passes to \<open>applyPulsingNeon\<close>, also overrides of
  \<open>animationSpeed\<close> or \<open>blinkEffect\<close>, the style the filter is built from has
  \<open>animationSpeed = 1.5\<close> and \<open>blinkEffect = false\<close>; every other key follows the merge
  rule, and the filter handed to the renderer is built from that style.
\<close>

theorem pulsing_forces_speed_and_blink:
  "getprop (neon_pulsingStyle customStyle) ''animationSpeed'' = JNum (Dec 15 1) \<and>
   getprop (neon_pulsingStyle customStyle) ''blinkEffect'' = JBool False \<and>
   (k \<noteq> ''animationSpeed'' \<and> k \<noteq> ''blinkEffect'' \<longrightarrow>
      getprop (neon_pulsingStyle customStyle) k =
        (if k \<in> dom customStyle then getprop customStyle k else getprop neon_defaultStyle k)) \<and>
   neon_applyPulsingNeon inputPath outputPath customStyle =
     Inr \<lparr>job_input = inputPath, job_kind = ComplexFilter,
          job_filter = neon_pulsingFilter (neon_pulsingStyle customStyle),
          job_options = [''-c:v libx264'', ''-c:a copy'', ''-preset medium'', ''-crf 18''],
          job_output = outputPath\<rparr>"
  by (auto simp: neon_pulsingStyle_def neon_applyPulsingNeon_def getprop_def spread_def map_add_def
           split: option.splits)

theorem pulsing_forces_speed_and_blink_witness:
  "getprop (neon_pulsingStyle [''animationSpeed'' \<mapsto> int_lit 9, ''blinkEffect'' \<mapsto> JBool True, ''text'' \<mapsto> JStr ''HI''])
      ''animationSpeed'' = JNum (Dec 15 1) \<and>
   getprop (neon_pulsingStyle [''animationSpeed'' \<mapsto> int_lit 9, ''blinkEffect'' \<mapsto> JBool True, ''text'' \<mapsto> JStr ''HI''])
      ''blinkEffect'' = JBool False \<and>
   ''text'' \<noteq> ''animationSpeed'' \<and> ''text'' \<noteq> ''blinkEffect'' \<and>
   getprop (neon_pulsingStyle [''animationSpeed'' \<mapsto> int_lit 9, ''blinkEffect'' \<mapsto> JBool True, ''text'' \<mapsto> JStr ''HI''])
      ''text'' = JStr ''HI'' \<and>
   ''fontSize'' \<noteq> ''animationSpeed'' \<and> ''fontSize'' \<noteq> ''blinkEffect'' \<and>
   getprop (neon_pulsingStyle [''animationSpeed'' \<mapsto> int_lit 9, ''blinkEffect'' \<mapsto> JBool True, ''text'' \<mapsto> JStr ''HI''])
      ''fontSize'' = int_lit 52"
  using pulsing_forces_speed_and_blink
          [of "[''animationSpeed'' \<mapsto> int_lit 9, ''blinkEffect'' \<mapsto> JBool True, ''text'' \<mapsto> JStr ''HI'']" "''text''"]
        pulsing_forces_speed_and_blink
          [of "[''animationSpeed'' \<mapsto> int_lit 9, ''blinkEffect'' \<mapsto> JBool True, ''text'' \<mapsto> JStr ''HI'']" "''fontSize''"]
  by (simp add: getprop_def neon_defaultStyle_def)

end
